theory Spec2Isabelle
  imports Main "HOL-Library.Monad_Syntax" "HOL-Library.AList" "HOL-Library.Option_ord"
begin

section \<open>JSON values and the JavaScript operations of the node scripts\<close>

text \<open>
  The two node scripts embedded in \<^verbatim>\<open>start-openclaw.sh\<close> read a JSON file with
  \<^verbatim>\<open>JSON.parse\<close>, mutate the parsed value and write it back with
  \<^verbatim>\<open>JSON.stringify\<close>. A value in memory is a \<open>json\<close>: objects are association
  lists in property order, and an array carries, next to its elements, the named
  properties a script may have assigned to it (JavaScript allows \<^verbatim>\<open>arr.port = 1\<close>;
  \<^verbatim>\<open>JSON.stringify\<close> drops such properties). Numbers are integers: the scripts only
  copy numbers and test them for zero. A string is a list of characters, one per code
  unit; a character stands for a code unit below 256.
\<close>

datatype json =
    JNull
  | JBool bool
  | JNum int
  | JStr string
  | JArr "json list" "(string \<times> json) list"
  | JObj "(string \<times> json) list"

text \<open>JavaScript truthiness; \<open>None\<close> stands for \<^verbatim>\<open>undefined\<close>.\<close>

fun truthy :: "json \<Rightarrow> bool" where
  "truthy JNull = False"
| "truthy (JBool b) = b"
| "truthy (JNum n) = (n \<noteq> 0)"
| "truthy (JStr s) = (s \<noteq> [])"
| "truthy (JArr xs ps) = True"
| "truthy (JObj kvs) = True"

definition truthy_opt :: "json option \<Rightarrow> bool" where
  "truthy_opt x = (case x of None \<Rightarrow> False | Some v \<Rightarrow> truthy v)"

text \<open>Decimal rendering of an array index, as \<^verbatim>\<open>Object.keys\<close> returns it.\<close>

fun string_of_nat :: "nat \<Rightarrow> string" where
  "string_of_nat n =
     (if n < 10 then [''0123456789'' ! n]
      else string_of_nat (n div 10) @ [''0123456789'' ! (n mod 10)])"

declare string_of_nat.simps [simp del]

text \<open>
  \<^verbatim>\<open>Object.keys(v)\<close> with the values \<^verbatim>\<open>v[key]\<close>: the entries of an object, the
  indices of an array (then its named properties), the indices of a string; nothing
  for a number or a boolean.
\<close>

fun own_entries :: "json \<Rightarrow> (string \<times> json) list" where
  "own_entries (JObj kvs) = kvs"
| "own_entries (JArr xs ps) = zip (map string_of_nat [0..<length xs]) xs @ ps"
| "own_entries (JStr s) = zip (map string_of_nat [0..<length s]) (map (\<lambda>c. JStr [c]) s)"
| "own_entries v = []"

text \<open>
  Reading, writing and deleting a named property of a value that is neither
  \<^verbatim>\<open>undefined\<close> nor \<^verbatim>\<open>null\<close>. The scripts use only names that are neither an array
  index nor \<^verbatim>\<open>length\<close> nor a method name, so a read on a number, a boolean or a string
  is \<^verbatim>\<open>undefined\<close>, and a write on one is ignored (the scripts run in sloppy mode).
  A write replaces the property where it stands or appends it, as JavaScript does for
  a name that is not an index.
\<close>

fun props :: "json \<Rightarrow> (string \<times> json) list" where
  "props (JObj kvs) = kvs"
| "props (JArr xs ps) = ps"
| "props v = []"

definition getp :: "json \<Rightarrow> string \<Rightarrow> json option" where
  "getp v k = map_of (props v) k"

fun setp :: "json \<Rightarrow> string \<Rightarrow> json \<Rightarrow> json" where
  "setp (JObj kvs) k x = JObj (AList.update k x kvs)"
| "setp (JArr xs ps) k x = JArr xs (AList.update k x ps)"
| "setp v k x = v"

fun delp :: "json \<Rightarrow> string \<Rightarrow> json" where
  "delp (JObj kvs) k = JObj (AList.delete k kvs)"
| "delp (JArr xs ps) k = JArr xs (AList.delete k ps)"
| "delp v k = v"

text \<open>\<^verbatim>\<open>x || {}\<close>\<close>

definition or_empty :: "json option \<Rightarrow> json" where
  "or_empty x = (case x of None \<Rightarrow> JObj [] | Some v \<Rightarrow> if truthy v then v else JObj [])"

text \<open>\<^verbatim>\<open>v.k = v.k || {}\<close>\<close>

definition ensure :: "json \<Rightarrow> string \<Rightarrow> json" where
  "ensure v k = setp v k (or_empty (getp v k))"

text \<open>
  Statements that reach through \<^verbatim>\<open>v.k\<close>, such as \<^verbatim>\<open>v.k.port = 1\<close>: they mutate
  the object \<^verbatim>\<open>v.k\<close> refers to, which stays the value of \<^verbatim>\<open>v.k\<close>. They throw a
  TypeError (\<open>None\<close>) when \<^verbatim>\<open>v.k\<close> is \<^verbatim>\<open>undefined\<close> or \<^verbatim>\<open>null\<close>. A parsed
  document is a tree, so no other path sees the mutation.
\<close>

definition within :: "json \<Rightarrow> string \<Rightarrow> (json \<Rightarrow> json option) \<Rightarrow> json option" where
  "within v k f =
     (case getp v k of
        None \<Rightarrow> None
      | Some JNull \<Rightarrow> None
      | Some u \<Rightarrow> (case f u of None \<Rightarrow> None | Some u' \<Rightarrow> Some (setp v k u')))"

text \<open>Optional chaining \<^verbatim>\<open>x?.k\<close>.\<close>

definition chain :: "json option \<Rightarrow> string \<Rightarrow> json option" where
  "chain x k = (case x of None \<Rightarrow> None | Some JNull \<Rightarrow> None | Some v \<Rightarrow> getp v k)"

text \<open>
  What \<^verbatim>\<open>JSON.parse(JSON.stringify(v))\<close> gives: the named properties of arrays are
  gone, everything else is kept.
\<close>

primrec as_written :: "json \<Rightarrow> json" where
  "as_written JNull = JNull"
| "as_written (JBool b) = JBool b"
| "as_written (JNum n) = JNum n"
| "as_written (JStr s) = JStr s"
| "as_written (JArr xs ps) = JArr (map as_written xs) []"
| "as_written (JObj kvs) = JObj (map (map_prod id as_written) kvs)"

text \<open>A file read by a node script: absent, not JSON, or a JSON document.\<close>

datatype content = Unparseable | Json json

type_synonym jfile = "content option"

text \<open>
  \<^verbatim>\<open>try { x = JSON.parse(fs.readFileSync(path)) } catch {}\<close>: \<open>None\<close> when the read
  or the parse throws.
\<close>

definition load :: "jfile \<Rightarrow> json option" where
  "load f = (case f of Some (Json j) \<Rightarrow> Some j | _ \<Rightarrow> None)"

section \<open>The process environment\<close>

type_synonym env = "string \<Rightarrow> string option"

text \<open>
  \<^verbatim>\<open>$VAR\<close> in bash and \<^verbatim>\<open>process.env.VAR\<close> in node: an unset variable reads as the
  empty string in bash and as \<^verbatim>\<open>undefined\<close> in node; \<^verbatim>\<open>[ -n "$VAR" ]\<close> and the
  truthiness of \<^verbatim>\<open>process.env.VAR\<close> both say "set and not empty".
\<close>

definition getenv :: "env \<Rightarrow> string \<Rightarrow> string" where
  "getenv e k = (case e k of None \<Rightarrow> [] | Some v \<Rightarrow> v)"

definition isset :: "env \<Rightarrow> string \<Rightarrow> bool" where
  "isset e k = (getenv e k \<noteq> [])"

definition starts_with :: "string \<Rightarrow> string \<Rightarrow> bool" where
  "starts_with p s = (take (length p) s = p)"

text \<open>\<^verbatim>\<open>raw.indexOf(c)\<close>: the first position of \<open>c\<close>, or -1.\<close>

definition indexOf :: "string \<Rightarrow> char \<Rightarrow> int" where
  "indexOf raw c = (if c \<in> set raw then int (length (takeWhile (\<lambda>x. x \<noteq> c) raw)) else - 1)"

text \<open>\<^verbatim>\<open>s.split(',')\<close>\<close>

fun split_on :: "char \<Rightarrow> string \<Rightarrow> string \<Rightarrow> string list" where
  "split_on c cur [] = [cur]"
| "split_on c cur (x # xs) = (if x = c then cur # split_on c [] xs else split_on c (cur @ [x]) xs)"

section \<open>The configuration patch (the first node script of start-openclaw.sh)\<close>

subsection \<open>Gateway block\<close>

text \<open>
  \<^verbatim>\<open>config.gateway.port = 18789; config.gateway.mode = 'local';
  config.gateway.trustedProxies = ['10.1.0.0'];
  if (process.env.OPENCLAW_GATEWAY_TOKEN) { config.gateway.auth = config.gateway.auth || {};
     config.gateway.auth.token = process.env.OPENCLAW_GATEWAY_TOKEN; }
  if (process.env.OPENCLAW_DEV_MODE === 'true') { config.gateway.controlUi = ... || {};
     config.gateway.controlUi.allowInsecureAuth = true; }
  config.gateway.http = config.gateway.http || {};
  config.gateway.http.endpoints = config.gateway.http.endpoints || {};
  config.gateway.http.endpoints.chatCompletions = { enabled: true };
  config.gateway.http.endpoints.responses = { enabled: true };\<close>
  as a function of the object \<^verbatim>\<open>config.gateway\<close>.
\<close>

definition patch_endpoints :: "json \<Rightarrow> json option" where
  "patch_endpoints e =
     Some (setp (setp e ''chatCompletions'' (JObj [(''enabled'', JBool True)]))
             ''responses'' (JObj [(''enabled'', JBool True)]))"

definition patch_http :: "json \<Rightarrow> json option" where
  "patch_http h = within (ensure h ''endpoints'') ''endpoints'' patch_endpoints"

definition patch_auth :: "env \<Rightarrow> json \<Rightarrow> json option" where
  "patch_auth e g =
     (if isset e ''OPENCLAW_GATEWAY_TOKEN''
      then within (ensure g ''auth'') ''auth''
             (\<lambda>a. Some (setp a ''token'' (JStr (getenv e ''OPENCLAW_GATEWAY_TOKEN''))))
      else Some g)"

definition patch_controlUi :: "env \<Rightarrow> json \<Rightarrow> json option" where
  "patch_controlUi e g =
     (if getenv e ''OPENCLAW_DEV_MODE'' = ''true''
      then within (ensure g ''controlUi'') ''controlUi''
             (\<lambda>u. Some (setp u ''allowInsecureAuth'' (JBool True)))
      else Some g)"

definition patch_gateway_obj :: "env \<Rightarrow> json \<Rightarrow> json option" where
  "patch_gateway_obj e g0 = do {
     let g1 = setp g0 ''port'' (JNum 18789);
     let g2 = setp g1 ''mode'' (JStr ''local'');
     let g3 = setp g2 ''trustedProxies'' (JArr [JStr ''10.1.0.0''] []);
     g4 \<leftarrow> patch_auth e g3;
     g5 \<leftarrow> patch_controlUi e g4;
     within (ensure g5 ''http'') ''http'' patch_http
   }"

text \<open>
  \<^verbatim>\<open>config.gateway = config.gateway || {}; config.channels = config.channels || {};\<close>
  and then the gateway block.
\<close>

definition patch_gateway :: "env \<Rightarrow> json \<Rightarrow> json option" where
  "patch_gateway e config =
     within (ensure (ensure config ''gateway'') ''channels'') ''gateway'' (patch_gateway_obj e)"

subsection \<open>Stale AI Gateway providers\<close>

definition stale_keys :: "json \<Rightarrow> string list" where
  "stale_keys providers = filter (starts_with ''cf-ai-gw-'') (map fst (own_entries providers))"

text \<open>
  \<^verbatim>\<open>if (config.models && config.models.providers) {
       const staleKeys = Object.keys(config.models.providers).filter(k => k.startsWith('cf-ai-gw-'));
       for (const key of staleKeys) { console.log(...); delete config.models.providers[key]; } }\<close>
\<close>

definition remove_stale_providers :: "json \<Rightarrow> json option" where
  "remove_stale_providers config =
     (if truthy_opt (getp config ''models'') \<and> truthy_opt (chain (getp config ''models'') ''providers'')
      then within config ''models''
             (\<lambda>m. within m ''providers'' (\<lambda>p. Some (fold (\<lambda>key q. delp q key) (stale_keys p) p)))
      else Some config)"

text \<open>\<^verbatim>\<open>config.agents?.defaults?.model?.primary\<close>\<close>

definition default_model :: "json \<Rightarrow> json option" where
  "default_model config = chain (chain (chain (getp config ''agents'') ''defaults'') ''model'') ''primary''"

text \<open>
  \<^verbatim>\<open>if (defaultModel && defaultModel.startsWith('cf-ai-gw-')) { console.log(...);
       delete config.agents.defaults.model; }\<close>
  A truthy \<^verbatim>\<open>defaultModel\<close> that is not a string has no \<^verbatim>\<open>startsWith\<close>: the call
  throws a TypeError.
\<close>

definition clear_default_model :: "json \<Rightarrow> json option" where
  "clear_default_model config =
     (case default_model config of
        None \<Rightarrow> Some config
      | Some (JStr s) \<Rightarrow>
          if s \<noteq> [] \<and> starts_with ''cf-ai-gw-'' s
          then within config ''agents'' (\<lambda>a. within a ''defaults'' (\<lambda>d. Some (delp d ''model'')))
          else Some config
      | Some v \<Rightarrow> if truthy v then None else Some config)"

definition cleanup_stale :: "env \<Rightarrow> json \<Rightarrow> json option" where
  "cleanup_stale e config =
     (if \<not> isset e ''CF_AI_GATEWAY_MODEL'' \<and> \<not> isset e ''CLOUDFLARE_AI_GATEWAY_API_KEY''
      then do { c \<leftarrow> remove_stale_providers config; clear_default_model c }
      else Some config)"

subsection \<open>AI Gateway model override\<close>

text \<open>The \<^verbatim>\<open>baseUrl\<close> of the override; \<open>None\<close> when it stays \<^verbatim>\<open>undefined\<close>.\<close>

definition base_url :: "env \<Rightarrow> string \<Rightarrow> string option" where
  "base_url e gwProvider =
     (if isset e ''CF_AI_GATEWAY_ACCOUNT_ID'' \<and> isset e ''CF_AI_GATEWAY_GATEWAY_ID''
      then Some (''https://gateway.ai.cloudflare.com/v1/'' @ getenv e ''CF_AI_GATEWAY_ACCOUNT_ID''
                 @ ''/'' @ getenv e ''CF_AI_GATEWAY_GATEWAY_ID'' @ ''/'' @ gwProvider
                 @ (if gwProvider = ''workers-ai'' then ''/v1'' else []))
      else if gwProvider = ''workers-ai'' \<and> isset e ''CF_ACCOUNT_ID''
      then Some (''https://api.cloudflare.com/client/v4/accounts/'' @ getenv e ''CF_ACCOUNT_ID'' @ ''/ai/v1'')
      else None)"

definition provider_entry :: "string \<Rightarrow> string \<Rightarrow> string \<Rightarrow> string \<Rightarrow> json" where
  "provider_entry baseUrl apiKey gwProvider modelId =
     JObj [(''baseUrl'', JStr baseUrl),
           (''apiKey'', JStr apiKey),
           (''api'', JStr (if gwProvider = ''anthropic'' then ''anthropic-messages'' else ''openai-completions'')),
           (''models'', JArr [JObj [(''id'', JStr modelId), (''name'', JStr modelId),
                                    (''contextWindow'', JNum 131072), (''maxTokens'', JNum 8192)]] [])]"

text \<open>
  The statements of the innermost branch (\<^verbatim>\<open>baseUrl && apiKey\<close>):
  \<^verbatim>\<open>config.models = config.models || {};
  config.models.providers = config.models.providers || {};
  config.models.providers[providerName] = {...};
  config.agents = config.agents || {};
  config.agents.defaults = config.agents.defaults || {};
  config.agents.defaults.model = { primary: providerName + '/' + modelId };\<close>
\<close>

definition set_override :: "string \<Rightarrow> json \<Rightarrow> string \<Rightarrow> json \<Rightarrow> json option" where
  "set_override providerName entry primary config = do {
     c1 \<leftarrow> within (ensure config ''models'') ''models''
             (\<lambda>m. within (ensure m ''providers'') ''providers''
                     (\<lambda>p. Some (setp p providerName entry)));
     within (ensure c1 ''agents'') ''agents''
       (\<lambda>a. within (ensure a ''defaults'') ''defaults''
               (\<lambda>d. Some (setp d ''model'' (JObj [(''primary'', JStr primary)]))))
   }"

definition model_override :: "env \<Rightarrow> json \<Rightarrow> json option" where
  "model_override e config =
     (if \<not> isset e ''CF_AI_GATEWAY_MODEL'' then Some config
      else
        let raw = getenv e ''CF_AI_GATEWAY_MODEL'';
            slashIdx = indexOf raw (CHR ''/'')
        in if slashIdx \<le> 0 then Some config
           else
             let gwProvider = take (nat slashIdx) raw;
                 modelId = drop (nat (slashIdx + 1)) raw;
                 apiKey = getenv e ''CLOUDFLARE_AI_GATEWAY_API_KEY''
             in (case base_url e gwProvider of
                   None \<Rightarrow> Some config
                 | Some baseUrl \<Rightarrow>
                     if apiKey = [] then Some config
                     else set_override (''cf-ai-gw-'' @ gwProvider)
                            (provider_entry baseUrl apiKey gwProvider modelId)
                            (''cf-ai-gw-'' @ gwProvider @ ''/'' @ modelId) config))"

subsection \<open>Channel blocks\<close>

definition VALID_TELEGRAM_KEYS :: "string list" where
  "VALID_TELEGRAM_KEYS =
     [''name'', ''capabilities'', ''markdown'', ''commands'', ''customCommands'', ''configWrites'',
      ''dmPolicy'', ''enabled'', ''botToken'', ''tokenFile'', ''replyToMode'', ''groups'',
      ''allowFrom'', ''groupAllowFrom'', ''groupPolicy'', ''historyLimit'', ''dmHistoryLimit'', ''dms'',
      ''textChunkLimit'', ''chunkMode'', ''blockStreaming'', ''draftChunk'', ''blockStreamingCoalesce'',
      ''streamMode'', ''mediaMaxMb'', ''timeoutSeconds'', ''retry'', ''network'', ''proxy'',
      ''webhookUrl'', ''webhookSecret'', ''webhookPath'', ''actions'', ''reactionNotifications'',
      ''reactionLevel'', ''heartbeat'', ''linkPreview'', ''responsePrefix'', ''accounts'']"

definition VALID_DISCORD_KEYS :: "string list" where
  "VALID_DISCORD_KEYS =
     [''name'', ''capabilities'', ''markdown'', ''commands'', ''configWrites'', ''enabled'', ''token'',
      ''allowBots'', ''groupPolicy'', ''textChunkLimit'', ''chunkMode'', ''blockStreaming'',
      ''blockStreamingCoalesce'', ''maxLinesPerMessage'', ''mediaMaxMb'', ''historyLimit'',
      ''dmHistoryLimit'', ''dms'', ''retry'', ''actions'', ''replyToMode'', ''dm'', ''guilds'',
      ''heartbeat'', ''execApprovals'', ''intents'', ''pluralkit'', ''responsePrefix'', ''accounts'']"

definition VALID_SLACK_KEYS :: "string list" where
  "VALID_SLACK_KEYS =
     [''name'', ''capabilities'', ''markdown'', ''commands'', ''configWrites'', ''enabled'',
      ''botToken'', ''appToken'', ''userToken'', ''userTokenReadOnly'', ''allowBots'',
      ''requireMention'', ''groupPolicy'', ''historyLimit'', ''dmHistoryLimit'', ''dms'',
      ''textChunkLimit'', ''chunkMode'', ''blockStreaming'', ''blockStreamingCoalesce'',
      ''mediaMaxMb'', ''reactionNotifications'', ''reactionAllowlist'', ''replyToMode'',
      ''replyToModeByChatType'', ''thread'', ''actions'', ''slashCommand'', ''dm'',
      ''channels'', ''heartbeat'', ''responsePrefix'', ''accounts'']"

text \<open>
  \<^verbatim>\<open>function filterKeys(obj, validKeys) {
      const filtered = {};
      for (const key of Object.keys(obj)) {
          if (validKeys.has(key)) filtered[key] = obj[key];
          else console.log('Stripped unknown channel key:', key);
      }
      return filtered; }\<close>
  The loop runs over the entries of \<open>obj\<close>; its state is \<open>filtered\<close> and the lines
  printed so far.
\<close>

fun filterKeys_loop ::
  "string list \<Rightarrow> (string \<times> json) list \<Rightarrow> (string \<times> json) list \<times> string list
     \<Rightarrow> (string \<times> json) list \<times> string list" where
  "filterKeys_loop validKeys [] acc = acc"
| "filterKeys_loop validKeys ((key, v) # rest) (filtered, out) =
     (if key \<in> set validKeys
      then filterKeys_loop validKeys rest (AList.update key v filtered, out)
      else filterKeys_loop validKeys rest (filtered, out @ [''Stripped unknown channel key: '' @ key]))"

definition filterKeys :: "json \<Rightarrow> string list \<Rightarrow> json \<times> string list" where
  "filterKeys obj validKeys =
     (case filterKeys_loop validKeys (own_entries obj) ([], []) of
        (filtered, out) \<Rightarrow> (JObj filtered, out))"

text \<open>
  The statements of the Telegram block on \<^verbatim>\<open>existing\<close>:
  \<^verbatim>\<open>existing.botToken = process.env.TELEGRAM_BOT_TOKEN; existing.enabled = true;
  if (process.env.TELEGRAM_DM_POLICY) existing.dmPolicy = process.env.TELEGRAM_DM_POLICY;
  if (!existing.dmPolicy) existing.dmPolicy = 'pairing';
  if (process.env.TELEGRAM_DM_ALLOW_FROM) {
      existing.allowFrom = process.env.TELEGRAM_DM_ALLOW_FROM.split(',');
  } else if (existing.dmPolicy === 'open' && !existing.allowFrom) { existing.allowFrom = ['*']; }\<close>
\<close>

definition telegram_settings :: "env \<Rightarrow> json \<Rightarrow> json" where
  "telegram_settings e existing =
     (let e1 = setp existing ''botToken'' (JStr (getenv e ''TELEGRAM_BOT_TOKEN''));
          e2 = setp e1 ''enabled'' (JBool True);
          e3 = (if isset e ''TELEGRAM_DM_POLICY''
                then setp e2 ''dmPolicy'' (JStr (getenv e ''TELEGRAM_DM_POLICY'')) else e2);
          e4 = (if \<not> truthy_opt (getp e3 ''dmPolicy'')
                then setp e3 ''dmPolicy'' (JStr ''pairing'') else e3)
      in if isset e ''TELEGRAM_DM_ALLOW_FROM''
         then setp e4 ''allowFrom''
                (JArr (map JStr (split_on (CHR '','') [] (getenv e ''TELEGRAM_DM_ALLOW_FROM''))) [])
         else if getp e4 ''dmPolicy'' = Some (JStr ''open'') \<and> \<not> truthy_opt (getp e4 ''allowFrom'')
         then setp e4 ''allowFrom'' (JArr [JStr ''*''] [])
         else e4)"

text \<open>
  The Telegram block, run when \<^verbatim>\<open>process.env.TELEGRAM_BOT_TOKEN\<close> is set, as a
  function of \<^verbatim>\<open>config.channels\<close>; it returns the lines \<open>filterKeys\<close> printed.
  \<^verbatim>\<open>const existing = filterKeys(config.channels.telegram || {}, VALID_TELEGRAM_KEYS);
  ...; config.channels.telegram = existing;\<close>
\<close>

definition telegram_block :: "env \<Rightarrow> json \<Rightarrow> json \<times> string list" where
  "telegram_block e channels =
     (case filterKeys (or_empty (getp channels ''telegram'')) VALID_TELEGRAM_KEYS of
        (existing, out) \<Rightarrow> (setp channels ''telegram'' (telegram_settings e existing), out))"

text \<open>
  The statements on \<^verbatim>\<open>existing.dm\<close> of the Discord block, as a function of the
  object \<^verbatim>\<open>existing.dm\<close> (after \<^verbatim>\<open>existing.dm = existing.dm || {}\<close>):
  \<^verbatim>\<open>if (process.env.DISCORD_DM_POLICY) existing.dm.policy = process.env.DISCORD_DM_POLICY;
  if (!existing.dm.policy) existing.dm.policy = 'pairing';
  if (existing.dm.policy === 'open' && !existing.dm.allowFrom) existing.dm.allowFrom = ['*'];\<close>
\<close>

definition discord_dm :: "env \<Rightarrow> json \<Rightarrow> json" where
  "discord_dm e dm0 =
     (let d1 = (if isset e ''DISCORD_DM_POLICY''
                then setp dm0 ''policy'' (JStr (getenv e ''DISCORD_DM_POLICY'')) else dm0);
          d2 = (if \<not> truthy_opt (getp d1 ''policy'') then setp d1 ''policy'' (JStr ''pairing'') else d1)
      in if getp d2 ''policy'' = Some (JStr ''open'') \<and> \<not> truthy_opt (getp d2 ''allowFrom'')
         then setp d2 ''allowFrom'' (JArr [JStr ''*''] [])
         else d2)"

text \<open>
  \<^verbatim>\<open>existing.token = process.env.DISCORD_BOT_TOKEN; existing.enabled = true;
  existing.dm = existing.dm || {}; ...\<close>
\<close>

definition discord_settings :: "env \<Rightarrow> json \<Rightarrow> json" where
  "discord_settings e existing =
     (let e1 = setp existing ''token'' (JStr (getenv e ''DISCORD_BOT_TOKEN''));
          e2 = setp e1 ''enabled'' (JBool True)
      in setp e2 ''dm'' (discord_dm e (or_empty (getp e2 ''dm''))))"

definition discord_block :: "env \<Rightarrow> json \<Rightarrow> json \<times> string list" where
  "discord_block e channels =
     (case filterKeys (or_empty (getp channels ''discord'')) VALID_DISCORD_KEYS of
        (existing, out) \<Rightarrow> (setp channels ''discord'' (discord_settings e existing), out))"

text \<open>
  \<^verbatim>\<open>existing.botToken = process.env.SLACK_BOT_TOKEN;
  existing.appToken = process.env.SLACK_APP_TOKEN; existing.enabled = true;\<close>
\<close>

definition slack_settings :: "env \<Rightarrow> json \<Rightarrow> json" where
  "slack_settings e existing =
     (let e1 = setp existing ''botToken'' (JStr (getenv e ''SLACK_BOT_TOKEN''));
          e2 = setp e1 ''appToken'' (JStr (getenv e ''SLACK_APP_TOKEN''))
      in setp e2 ''enabled'' (JBool True))"

definition slack_block :: "env \<Rightarrow> json \<Rightarrow> json \<times> string list" where
  "slack_block e channels =
     (case filterKeys (or_empty (getp channels ''slack'')) VALID_SLACK_KEYS of
        (existing, out) \<Rightarrow> (setp channels ''slack'' (slack_settings e existing), out))"

text \<open>The three channel blocks in the order of the script, each behind its guard.\<close>

definition channels_section :: "env \<Rightarrow> json \<Rightarrow> json \<times> string list" where
  "channels_section e ch0 =
     (case (if isset e ''TELEGRAM_BOT_TOKEN'' then telegram_block e ch0 else (ch0, [])) of
        (ch1, out1) \<Rightarrow>
          (case (if isset e ''DISCORD_BOT_TOKEN'' then discord_block e ch1 else (ch1, [])) of
             (ch2, out2) \<Rightarrow>
               (case (if isset e ''SLACK_BOT_TOKEN'' \<and> isset e ''SLACK_APP_TOKEN''
                      then slack_block e ch2 else (ch2, [])) of
                  (ch3, out3) \<Rightarrow> (ch3, out1 @ out2 @ out3))))"

definition patch_channels :: "env \<Rightarrow> json \<Rightarrow> json option" where
  "patch_channels e config = within config ''channels'' (\<lambda>ch. Some (fst (channels_section e ch)))"

subsection \<open>The whole patch\<close>

text \<open>
  The value of \<^verbatim>\<open>config\<close> at \<^verbatim>\<open>fs.writeFileSync\<close>, or \<open>None\<close> when a statement
  throws before. \<^verbatim>\<open>config.gateway\<close> on \<^verbatim>\<open>null\<close> throws at once.
\<close>

definition patch_config :: "env \<Rightarrow> json \<Rightarrow> json option" where
  "patch_config e config =
     (case config of
        JNull \<Rightarrow> None
      | _ \<Rightarrow> do {
          c1 \<leftarrow> patch_gateway e config;
          c2 \<leftarrow> cleanup_stale e c1;
          c3 \<leftarrow> model_override e c2;
          patch_channels e c3
        })"

text \<open>The lines \<^verbatim>\<open>console.log\<close> prints (\<^verbatim>\<open>console.warn\<close> writes to stderr).\<close>

definition cleanup_out :: "env \<Rightarrow> json \<Rightarrow> string list" where
  "cleanup_out e config =
     (if \<not> isset e ''CF_AI_GATEWAY_MODEL'' \<and> \<not> isset e ''CLOUDFLARE_AI_GATEWAY_API_KEY''
      then (case chain (getp config ''models'') ''providers'' of
              None \<Rightarrow> []
            | Some p \<Rightarrow>
                if truthy_opt (getp config ''models'') \<and> truthy p
                then map (\<lambda>key. ''Removing stale AI Gateway provider: '' @ key) (stale_keys p)
                else [])
           @ (case default_model config of
                Some (JStr s) \<Rightarrow>
                  if s \<noteq> [] \<and> starts_with ''cf-ai-gw-'' s
                  then [''Clearing stale default model: '' @ s] else []
              | _ \<Rightarrow> [])
      else [])"

definition override_out :: "env \<Rightarrow> string list" where
  "override_out e =
     (let raw = getenv e ''CF_AI_GATEWAY_MODEL'';
          slashIdx = indexOf raw (CHR ''/'');
          gwProvider = take (nat slashIdx) raw;
          modelId = drop (nat (slashIdx + 1)) raw
      in if isset e ''CF_AI_GATEWAY_MODEL'' \<and> 0 < slashIdx \<and> isset e ''CLOUDFLARE_AI_GATEWAY_API_KEY''
         then (case base_url e gwProvider of
                 None \<Rightarrow> []
               | Some baseUrl \<Rightarrow>
                   [''AI Gateway model override: provider=cf-ai-gw-'' @ gwProvider
                      @ '' model='' @ modelId @ '' via '' @ baseUrl])
         else [])"

definition patch_console :: "env \<Rightarrow> json \<Rightarrow> string list" where
  "patch_console e config =
     (case config of
        JNull \<Rightarrow> []
      | _ \<Rightarrow>
         (case patch_gateway e config of
            None \<Rightarrow> []
          | Some c1 \<Rightarrow>
              cleanup_out e c1 @
              (case cleanup_stale e c1 of
                 None \<Rightarrow> []
               | Some c2 \<Rightarrow>
                   (case model_override e c2 of
                      None \<Rightarrow> []
                    | Some c3 \<Rightarrow>
                        override_out e @
                        (case getp c3 ''channels'' of
                           None \<Rightarrow> []
                         | Some ch \<Rightarrow> snd (channels_section e ch))))))"

text \<open>
  The node process of the patch step on the file \<^verbatim>\<open>/root/.openclaw/openclaw.json\<close>:
  its exit status, the file afterwards and its standard output. A file that cannot be
  read or parsed gives the empty object. An uncaught TypeError ends node with status 1
  before \<^verbatim>\<open>fs.writeFileSync\<close>: the file stays as it was.
\<close>

definition node_patch :: "env \<Rightarrow> jfile \<Rightarrow> nat \<times> jfile \<times> string list" where
  "node_patch e f =
     (let config = (case load f of None \<Rightarrow> JObj [] | Some c \<Rightarrow> c);
          head = ''Patching config at: /root/.openclaw/openclaw.json''
                 # (if load f = None then [''Starting with empty config''] else [])
      in case patch_config e config of
           None \<Rightarrow> (1, f, head @ patch_console e config)
         | Some c \<Rightarrow>
             (0, Some (Json (as_written c)),
              head @ patch_console e config @ [''Configuration patched successfully'']))"

definition patched_file :: "env \<Rightarrow> jfile \<Rightarrow> jfile" where
  "patched_file e f = fst (snd (node_patch e f))"

section \<open>Setup-token injection (the second node script)\<close>

definition profileId :: string where
  "profileId = ''anthropic:default''"

text \<open>
  \<^verbatim>\<open>String.prototype.trim\<close> removes the white space and the line terminators of
  ECMAScript at both ends. Among the code units below 256 these are TAB, LF, VT, FF,
  CR, the space and the no-break space U+00A0; all the others (U+1680, U+2000 to
  U+200A, U+2028, U+2029, U+202F, U+205F, U+3000, U+FEFF) lie above 255.
\<close>

definition is_space :: "char \<Rightarrow> bool" where
  "is_space c = (c \<in> {CHR '' '', CHR 0x09, CHR 0x0A, CHR 0x0B, CHR 0x0C, CHR 0x0D, CHR 0xA0})"

definition trim :: "string \<Rightarrow> string" where
  "trim s = rev (dropWhile is_space (rev (dropWhile is_space s)))"

text \<open>
  \<^verbatim>\<open>!(!profiles.profiles[profileId] || !profiles.profiles[profileId].token)\<close>, on the
  value of \<^verbatim>\<open>profiles.profiles\<close>.
\<close>

definition token_persisted :: "json \<Rightarrow> bool" where
  "token_persisted ps =
     (truthy_opt (getp ps profileId) \<and> truthy_opt (chain (getp ps profileId) ''token''))"

definition token_profile :: "env \<Rightarrow> json" where
  "token_profile e =
     JObj [(''type'', JStr ''token''), (''provider'', JStr ''anthropic''),
           (''token'', JStr (trim (getenv e ''CLAUDE_SETUP_TOKEN'')))]"

text \<open>
  The statements on \<^verbatim>\<open>config\<close> inside the branch that injects:
  \<^verbatim>\<open>config.auth = config.auth || {};
  config.auth.profiles = config.auth.profiles || {};
  config.auth.profiles[profileId] = { provider: provider, mode: 'token' };
  config.models = config.models || {};
  config.models.providers = config.models.providers || {};
  if (!config.models.providers.anthropic) {
      config.models.providers.anthropic = { api: 'anthropic-messages' }; ... }\<close>
\<close>

definition inject_config :: "json \<Rightarrow> json option" where
  "inject_config config =
     (case config of
        JNull \<Rightarrow> None
      | _ \<Rightarrow> do {
          c1 \<leftarrow> within (ensure config ''auth'') ''auth''
                  (\<lambda>a. within (ensure a ''profiles'') ''profiles''
                          (\<lambda>p. Some (setp p profileId
                                       (JObj [(''provider'', JStr ''anthropic''), (''mode'', JStr ''token'')]))));
          within (ensure c1 ''models'') ''models''
            (\<lambda>m. within (ensure m ''providers'') ''providers''
                    (\<lambda>p. Some (if \<not> truthy_opt (getp p ''anthropic'')
                                then setp p ''anthropic'' (JObj [(''api'', JStr ''anthropic-messages'')])
                                else p)))
        })"

text \<open>Whether \<^verbatim>\<open>Added default Anthropic provider ...\<close> is printed.\<close>

definition stub_added :: "json \<Rightarrow> bool" where
  "stub_added config = (\<not> truthy_opt (chain (chain (getp config ''models'') ''providers'') ''anthropic''))"

text \<open>
  The node process of the injection step on \<^verbatim>\<open>auth-profiles.json\<close> and
  \<^verbatim>\<open>openclaw.json\<close>: exit status, the two files afterwards, standard output.
  \<^verbatim>\<open>auth-profiles.json\<close> is written before \<^verbatim>\<open>openclaw.json\<close> is read.
\<close>

definition node_inject :: "env \<Rightarrow> jfile \<times> jfile \<Rightarrow> nat \<times> (jfile \<times> jfile) \<times> string list" where
  "node_inject e fs =
     (case fs of (pf, cf) \<Rightarrow>
       (case (case load pf of None \<Rightarrow> JObj [] | Some r \<Rightarrow> r) of
          JNull \<Rightarrow> (1, (pf, cf), [])
        | root0 \<Rightarrow>
           (let root = ensure root0 ''profiles'' in
            case getp root ''profiles'' of
              None \<Rightarrow> (1, (pf, cf), [])
            | Some ps \<Rightarrow>
                if token_persisted ps
                then (0, (pf, cf), [''Existing token found, skipping env var injection''])
                else
                  let root' = setp root ''profiles'' (setp ps profileId (token_profile e));
                      pf' = Some (Json (as_written root'));
                      config = (case load cf of None \<Rightarrow> JObj [] | Some c \<Rightarrow> c)
                  in (case inject_config config of
                        None \<Rightarrow> (1, (pf', cf), [''Setup token written to auth-profiles.json''])
                      | Some c \<Rightarrow>
                          (0, (pf', Some (Json (as_written c))),
                           ''Setup token written to auth-profiles.json''
                           # (if stub_added config
                              then [''Added default Anthropic provider for setup token auth'']
                              else [])
                           @ [''Config updated with token profile reference''])))))"

section \<open>start-openclaw.sh\<close>

text \<open>
  The files and facts the script reads or changes. The backup store is mounted at
  \<^verbatim>\<open>/data/openclaw\<close>; the script only reads it. \<open>local_sync\<close> and \<open>backup_sync\<close> are
  the two \<^verbatim>\<open>.last-sync\<close> markers as \<^verbatim>\<open>$(cat ...)\<close> reads them (\<open>None\<close>: no such
  file). The workspace \<^verbatim>\<open>/root/clawd\<close> and its \<^verbatim>\<open>skills\<close> directory are file
  lists of opaque contents.
\<close>

record world =
  probe_ok :: bool
  lockdir :: bool
  config_file :: jfile
  profiles_file :: jfile
  local_sync :: "string option"
  tmp_gateway_lock :: bool
  cfg_gateway_lock :: bool
  workspace_files :: "(string \<times> string) list"
  skills_files :: "(string \<times> string) list"
  backup_dir :: bool
  backup_sync :: "string option"
  backup_config :: jfile
  backup_profiles :: jfile
  backup_config_sync :: "string option"
  backup_workspace :: "(string \<times> string) list"
  backup_skills :: "(string \<times> string) list"

text \<open>
  What a run observes: a line on standard output, a command run in the foreground,
  a command started in the background with \<^verbatim>\<open>&\<close> (the shell goes on), and a
  command that takes the place of the shell with \<^verbatim>\<open>exec\<close> (nothing of the script
  runs after it, no trap either). This script starts the gateway with \<^verbatim>\<open>&\<close>.
\<close>

datatype event = Out string | Cmd "string list" | Spawn "string list" | Exec "string list"

text \<open>
  A copy under \<^verbatim>\<open>timeout 60\<close> either completes or stops early (failure or timeout);
  then some files may have been written already, with whatever content. \<^verbatim>\<open>cp\<close> never
  removes a file of the destination.
\<close>

datatype cp_config_outcome = CpConfigOk | CpConfigFailed "content option" "content option" "string option"

datatype cp_tree_outcome = CpTreeOk | CpTreeFailed "(string \<times> string) list"

text \<open>
  What the script does not decide: \<^verbatim>\<open>date -d\<close> (\<open>None\<close>: it rejects the string),
  whether another invocation creates the lock directory between this invocation's
  \<^verbatim>\<open>rm -rf\<close> and its second \<^verbatim>\<open>mkdir\<close>, the outcome of the three copies, the
  pathnames that match a pattern (in the order bash gives them; none when nothing
  matches), and the two runs of the \<^verbatim>\<open>openclaw\<close> binary: \<^verbatim>\<open>openclaw onboard\<close> gives
  an exit status and leaves \<^verbatim>\<open>openclaw.json\<close> and \<^verbatim>\<open>auth-profiles.json\<close> as it
  likes; the gateway gives, when it ends, an exit status and whatever files it likes.
\<close>

record ext =
  date_epoch :: "string \<Rightarrow> int option"
  lock_race :: bool
  cp_config :: cp_config_outcome
  cp_workspace :: cp_tree_outcome
  cp_skills :: cp_tree_outcome
  pathnames :: "string \<Rightarrow> string list"
  onboard_run :: "string list \<Rightarrow> world \<Rightarrow> nat \<times> jfile \<times> jfile"
  gateway_pid :: nat
  gateway_run :: "string list \<Rightarrow> world \<Rightarrow> nat \<times> world"

definition LOCKFILE :: string where
  "LOCKFILE = ''/tmp/start-openclaw.lock''"

subsection \<open>Lock\<close>

text \<open>
  \<^verbatim>\<open>if ! mkdir "$LOCKFILE"; then echo "Stale lockfile detected ..."; rm -rf "$LOCKFILE";
       if ! mkdir "$LOCKFILE"; then echo "Failed to acquire lock after recovery, exiting."; exit 1; fi
  fi\<close>
  The result says whether the lock was acquired.
\<close>

definition acquire_lock :: "ext \<Rightarrow> world \<Rightarrow> bool \<times> world \<times> event list" where
  "acquire_lock x w =
     (if \<not> lockdir w then (True, w\<lparr>lockdir := True\<rparr>, [Cmd [''mkdir'', LOCKFILE]])
      else
        let tr = [Cmd [''mkdir'', LOCKFILE],
                  Out ''Stale lockfile detected (gateway not running), recovering...'',
                  Cmd [''rm'', ''-rf'', LOCKFILE],
                  Cmd [''mkdir'', LOCKFILE]]
        in if lock_race x
           then (False, w\<lparr>lockdir := True\<rparr>, tr @ [Out ''Failed to acquire lock after recovery, exiting.''])
           else (True, w\<lparr>lockdir := True\<rparr>, tr))"

subsection \<open>Restore\<close>

text \<open>\<^verbatim>\<open>$(date -d "$T" +%s 2>/dev/null || echo "0")\<close>\<close>

definition epoch_of :: "(string \<Rightarrow> int option) \<Rightarrow> string \<Rightarrow> int" where
  "epoch_of date t = (case date t of None \<Rightarrow> 0 | Some n \<Rightarrow> n)"

text \<open>The shell function; \<open>True\<close> is its return status 0 ("restore").\<close>

definition should_restore_from_r2 ::
  "(string \<Rightarrow> int option) \<Rightarrow> string option \<Rightarrow> string option \<Rightarrow> bool \<times> string list" where
  "should_restore_from_r2 date r2_sync_file local_sync_file =
     (case r2_sync_file of
        None \<Rightarrow> (False, [''No R2 sync timestamp found, skipping restore''])
      | Some r2_time \<Rightarrow>
         (case local_sync_file of
            None \<Rightarrow> (True, [''No local sync timestamp, will restore from R2''])
          | Some local_time \<Rightarrow>
              if epoch_of date local_time < epoch_of date r2_time
              then (True, [''R2 last sync: '' @ r2_time, ''Local last sync: '' @ local_time,
                           ''R2 backup is newer, will restore''])
              else (False, [''R2 last sync: '' @ r2_time, ''Local last sync: '' @ local_time,
                            ''Local data is newer or same, skipping restore''])))"

text \<open>A copied file replaces the destination's; a file the source lacks leaves it.\<close>

definition overwrite :: "'a option \<Rightarrow> 'a option \<Rightarrow> 'a option" where
  "overwrite dst src = (case src of None \<Rightarrow> dst | Some c \<Rightarrow> Some c)"

definition restore_config :: "ext \<Rightarrow> world \<Rightarrow> world \<times> event list" where
  "restore_config x w =
     (if backup_config w \<noteq> None
      then (case should_restore_from_r2 (date_epoch x) (backup_sync w) (local_sync w) of
              (go, lines) \<Rightarrow>
                if go
                then
                  let tr = map Out lines
                           @ [Out ''Restoring from R2 backup at /data/openclaw/openclaw (timeout: 60s)...'',
                              Cmd [''timeout'', ''60'', ''cp'', ''-a'', ''/data/openclaw/openclaw/.'', ''/root/.openclaw/'']]
                  in (case cp_config x of
                        CpConfigOk \<Rightarrow>
                          (w\<lparr>config_file := overwrite (config_file w) (backup_config w),
                             profiles_file := overwrite (profiles_file w) (backup_profiles w),
                             local_sync := overwrite (overwrite (local_sync w) (backup_config_sync w)) (backup_sync w)\<rparr>,
                           tr @ [Cmd [''cp'', ''-f'', ''/data/openclaw/.last-sync'', ''/root/.openclaw/.last-sync''],
                                 Out ''Restored config from R2 backup''])
                      | CpConfigFailed c p s \<Rightarrow>
                          (w\<lparr>config_file := overwrite (config_file w) c,
                             profiles_file := overwrite (profiles_file w) p,
                             local_sync := overwrite (local_sync w) s\<rparr>,
                           tr @ [Out ''WARNING: R2 config restore timed out or failed, starting fresh'']))
                else (w, map Out lines))
      else if backup_dir w
      then (w, [Out ''R2 mounted at /data/openclaw but no backup data found yet''])
      else (w, [Out ''R2 not mounted, starting fresh'']))"

definition restore_workspace :: "ext \<Rightarrow> world \<Rightarrow> world \<times> event list" where
  "restore_workspace x w =
     (if backup_workspace w \<noteq> []
      then (case should_restore_from_r2 (date_epoch x) (backup_sync w) (local_sync w) of
              (go, lines) \<Rightarrow>
                if go
                then
                  let tr = map Out lines
                           @ [Out ''Restoring workspace from /data/openclaw/workspace (timeout: 60s)...'',
                              Cmd [''mkdir'', ''-p'', ''/root/clawd''],
                              Cmd [''timeout'', ''60'', ''cp'', ''-a'', ''/data/openclaw/workspace/.'', ''/root/clawd/'']]
                  in (case cp_workspace x of
                        CpTreeOk \<Rightarrow>
                          (w\<lparr>workspace_files := AList.merge (workspace_files w) (backup_workspace w)\<rparr>,
                           tr @ [Out ''Restored workspace from R2 backup''])
                      | CpTreeFailed written \<Rightarrow>
                          (w\<lparr>workspace_files := AList.merge (workspace_files w) written\<rparr>,
                           tr @ [Out ''WARNING: R2 workspace restore timed out or failed'']))
                else (w, map Out lines))
      else (w, []))"

definition restore_skills :: "ext \<Rightarrow> world \<Rightarrow> world \<times> event list" where
  "restore_skills x w =
     (if backup_skills w \<noteq> []
      then (case should_restore_from_r2 (date_epoch x) (backup_sync w) (local_sync w) of
              (go, lines) \<Rightarrow>
                if go
                then
                  let tr = map Out lines
                           @ [Out ''Restoring skills from /data/openclaw/skills (timeout: 60s)...'',
                              Cmd [''mkdir'', ''-p'', ''/root/clawd/skills''],
                              Cmd [''timeout'', ''60'', ''cp'', ''-a'', ''/data/openclaw/skills/.'', ''/root/clawd/skills/'']]
                  in (case cp_skills x of
                        CpTreeOk \<Rightarrow>
                          (w\<lparr>skills_files := AList.merge (skills_files w) (backup_skills w)\<rparr>,
                           tr @ [Out ''Restored skills from R2 backup''])
                      | CpTreeFailed written \<Rightarrow>
                          (w\<lparr>skills_files := AList.merge (skills_files w) written\<rparr>,
                           tr @ [Out ''WARNING: R2 skills restore timed out or failed'']))
                else (w, map Out lines))
      else (w, []))"

definition restore_all :: "ext \<Rightarrow> world \<Rightarrow> world \<times> event list" where
  "restore_all x w =
     (case restore_config x w of
        (w1, t1) \<Rightarrow>
          (case restore_workspace x w1 of
             (w2, t2) \<Rightarrow>
               (case restore_skills x w2 of
                  (w3, t3) \<Rightarrow> (w3, t1 @ t2 @ t3))))"

subsection \<open>Onboarding\<close>

text \<open>
  \<^verbatim>\<open>AUTH_ARGS\<close>; the script expands it unquoted, so bash splits it at white space
  (runs of blanks in the script's string literal make no difference) and then
  replaces every word that holds one of \<^verbatim>\<open>*\<close>, \<^verbatim>\<open>?\<close>, \<^verbatim>\<open>[\<close> by the pathnames
  that match it, if there are any.
\<close>

definition AUTH_ARGS :: "env \<Rightarrow> string" where
  "AUTH_ARGS e =
     (if isset e ''CLOUDFLARE_AI_GATEWAY_API_KEY'' \<and> isset e ''CF_AI_GATEWAY_ACCOUNT_ID''
         \<and> isset e ''CF_AI_GATEWAY_GATEWAY_ID''
      then ''--auth-choice cloudflare-ai-gateway-api-key ''
           @ ''--cloudflare-ai-gateway-account-id '' @ getenv e ''CF_AI_GATEWAY_ACCOUNT_ID''
           @ '' --cloudflare-ai-gateway-gateway-id '' @ getenv e ''CF_AI_GATEWAY_GATEWAY_ID''
           @ '' --cloudflare-ai-gateway-api-key '' @ getenv e ''CLOUDFLARE_AI_GATEWAY_API_KEY''
      else if isset e ''ANTHROPIC_API_KEY''
      then ''--auth-choice apiKey --anthropic-api-key '' @ getenv e ''ANTHROPIC_API_KEY''
      else if isset e ''OPENAI_API_KEY''
      then ''--auth-choice openai-api-key --openai-api-key '' @ getenv e ''OPENAI_API_KEY''
      else [])"

fun split_words :: "string \<Rightarrow> string \<Rightarrow> string list" where
  "split_words cur [] = (if cur = [] then [] else [cur])"
| "split_words cur (c # cs) =
     (if c \<in> {CHR '' '', CHR 0x09, CHR 0x0A}
      then (if cur = [] then split_words [] cs else cur # split_words [] cs)
      else split_words (cur @ [c]) cs)"

definition has_glob :: "string \<Rightarrow> bool" where
  "has_glob word = list_ex (\<lambda>c. c \<in> {CHR ''*'', CHR ''?'', CHR ''[''}) word"

definition expand_word :: "ext \<Rightarrow> string \<Rightarrow> string list" where
  "expand_word x word = (if has_glob word \<and> pathnames x word \<noteq> [] then pathnames x word else [word])"

definition onboard_argv :: "ext \<Rightarrow> env \<Rightarrow> string list" where
  "onboard_argv x e =
     [''openclaw'', ''onboard'', ''--non-interactive'', ''--accept-risk'', ''--mode'', ''local'']
     @ concat (map (expand_word x) (split_words [] (AUTH_ARGS e)))
     @ [''--gateway-port'', ''18789'', ''--gateway-bind'', ''lan'',
        ''--skip-channels'', ''--skip-skills'', ''--skip-health'']"

text \<open>
  A step of the script after the lock is held: \<open>Some code\<close> when \<^verbatim>\<open>set -e\<close> ends the
  script there with that status, the files afterwards, and what the step printed and
  ran.
\<close>

type_synonym step_result = "nat option \<times> world \<times> event list"

definition onboard_step :: "ext \<Rightarrow> env \<Rightarrow> world \<Rightarrow> step_result" where
  "onboard_step x e w =
     (if config_file w = None
      then (case onboard_run x (onboard_argv x e) w of
              (code, cf, pf) \<Rightarrow>
                if code = 0
                then (None, w\<lparr>config_file := cf, profiles_file := pf\<rparr>,
                      [Out ''No existing config found, running openclaw onboard...'',
                       Cmd (onboard_argv x e), Out ''Onboard completed''])
                else (Some code, w\<lparr>config_file := cf, profiles_file := pf\<rparr>,
                      [Out ''No existing config found, running openclaw onboard...'',
                       Cmd (onboard_argv x e)]))
      else (None, w, [Out ''Using existing config'']))"

subsection \<open>Patch, injection, launch\<close>

definition patch_step :: "env \<Rightarrow> world \<Rightarrow> step_result" where
  "patch_step e w =
     (case node_patch e (config_file w) of
        (code, f, out) \<Rightarrow>
          (if code = 0 then None else Some code,
           w\<lparr>config_file := f\<rparr>,
           Cmd [''node''] # map Out out))"

definition inject_step :: "env \<Rightarrow> world \<Rightarrow> step_result" where
  "inject_step e w =
     (if isset e ''CLAUDE_SETUP_TOKEN''
      then (case node_inject e (profiles_file w, config_file w) of
              (code, (pf, cf), out) \<Rightarrow>
                (if code = 0 then None else Some code,
                 w\<lparr>profiles_file := pf, config_file := cf\<rparr>,
                 Out ''Injecting setup token from CLAUDE_SETUP_TOKEN env var...''
                 # Cmd [''node''] # map Out out))
      else (None, w, []))"

definition gateway_argv :: "env \<Rightarrow> string list" where
  "gateway_argv e =
     [''openclaw'', ''gateway'', ''--port'', ''18789'', ''--verbose'', ''--allow-unconfigured'', ''--bind'', ''lan'']
     @ (if isset e ''OPENCLAW_GATEWAY_TOKEN'' then [''--token'', getenv e ''OPENCLAW_GATEWAY_TOKEN''] else [])"

text \<open>
  From \<^verbatim>\<open>echo "Starting OpenClaw Gateway..."\<close> to
  \<^verbatim>\<open>echo "Gateway started with PID $GATEWAY_PID"\<close>: the gateway is started in the
  background, the shell goes on.
\<close>

definition launch :: "ext \<Rightarrow> env \<Rightarrow> world \<Rightarrow> world \<times> event list" where
  "launch x e w =
     (w\<lparr>tmp_gateway_lock := False, cfg_gateway_lock := False\<rparr>,
      [Out ''Starting OpenClaw Gateway...'',
       Out ''Gateway will be available on port 18789'',
       Cmd [''rm'', ''-f'', ''/tmp/openclaw-gateway.lock''],
       Cmd [''rm'', ''-f'', ''/root/.openclaw/gateway.lock''],
       Out (''Dev mode: '' @ (if isset e ''OPENCLAW_DEV_MODE'' then getenv e ''OPENCLAW_DEV_MODE'' else ''false'')),
       Out (if isset e ''OPENCLAW_GATEWAY_TOKEN'' then ''Starting gateway with token auth...''
            else ''Starting gateway with device pairing (no token)...''),
       Spawn (gateway_argv e),
       Out (''Gateway started with PID '' @ string_of_nat (gateway_pid x))])"

subsection \<open>The script\<close>

text \<open>
  The \<^verbatim>\<open>EXIT\<close> trap \<^verbatim>\<open>rmdir "$LOCKFILE" 2>/dev/null\<close>, set once the lock is held: it
  runs at every exit of the shell from then on. When \<^verbatim>\<open>rmdir\<close> succeeds the exit
  status stays as it was. When the lock directory is no longer there, \<^verbatim>\<open>rmdir\<close> fails
  with status 1, and under \<^verbatim>\<open>set -e\<close> this failure inside the trap ends the shell
  with status 1, whatever the status was. (The script puts nothing into the lock
  directory.)
\<close>

definition exit_trap :: "nat \<Rightarrow> world \<Rightarrow> event list \<Rightarrow> nat \<times> world \<times> event list" where
  "exit_trap code w tr =
     (if lockdir w then code else 1, w\<lparr>lockdir := False\<rparr>, tr @ [Cmd [''rmdir'', LOCKFILE]])"

text \<open>
  The script up to the moment the gateway has been started: either the shell has
  exited (\<open>Halted\<close>: status, files, trace) or the gateway runs in the background and
  the shell is about to \<^verbatim>\<open>wait\<close> for it (\<open>Launched\<close>).
\<close>

datatype boot_result = Halted nat world "event list" | Launched world "event list"

definition probe_cmd :: event where
  "probe_cmd = Cmd [''curl'', ''-sf'', ''--max-time'', ''2'', ''http://localhost:18789/'']"

definition halt_trap :: "nat \<Rightarrow> world \<Rightarrow> event list \<Rightarrow> boot_result" where
  "halt_trap code w tr = (case exit_trap code w tr of (c, w', tr') \<Rightarrow> Halted c w' tr')"

text \<open>
  Sequencing under \<^verbatim>\<open>set -e\<close>: the next step runs only if the script has not ended.
\<close>

definition and_then :: "step_result \<Rightarrow> (world \<Rightarrow> step_result) \<Rightarrow> step_result" where
  "and_then r f =
     (case r of
        (Some code, w, t) \<Rightarrow> (Some code, w, t)
      | (None, w, t) \<Rightarrow> (case f w of (c', w', t') \<Rightarrow> (c', w', t @ t')))"

definition no_exit :: "world \<times> event list \<Rightarrow> step_result" where
  "no_exit r = (case r of (w, t) \<Rightarrow> (None, w, t))"

text \<open>
  The script between the \<^verbatim>\<open>trap\<close> command and the launch: restore, onboarding, patch,
  injection.
\<close>

definition prepare :: "ext \<Rightarrow> env \<Rightarrow> world \<Rightarrow> step_result" where
  "prepare x e w0 =
     and_then
       (and_then
          (and_then
             (and_then
                (None, w0, [Out ''Config directory: /root/.openclaw'',
                            Out ''Backup directory: /data/openclaw'',
                            Cmd [''mkdir'', ''-p'', ''/root/.openclaw'']])
                (\<lambda>w. no_exit (restore_all x w)))
             (onboard_step x e))
          (patch_step e))
       (inject_step e)"

text \<open>The script between the \<^verbatim>\<open>trap\<close> command and \<^verbatim>\<open>wait\<close>.\<close>

definition locked_body :: "ext \<Rightarrow> env \<Rightarrow> world \<Rightarrow> step_result" where
  "locked_body x e w0 = and_then (prepare x e w0) (\<lambda>w. no_exit (launch x e w))"

definition boot :: "ext \<Rightarrow> env \<Rightarrow> world \<Rightarrow> boot_result" where
  "boot x e w =
     (if probe_ok w
      then Halted 0 w [probe_cmd, Out ''OpenClaw gateway is already running on port 18789, exiting.'']
      else
        (case acquire_lock x w of
           (False, w0, t0) \<Rightarrow> Halted 1 w0 (probe_cmd # t0)
         | (True, w0, t0) \<Rightarrow>
            (case locked_body x e w0 of
               (Some code, w1, t1) \<Rightarrow> halt_trap code w1 (probe_cmd # t0 @ t1)
             | (None, w1, t1) \<Rightarrow> Launched w1 (probe_cmd # t0 @ t1))))"

text \<open>
  The whole run: \<^verbatim>\<open>wait $GATEWAY_PID\<close> returns the gateway's exit status; a status
  other than 0 ends the script at once under \<^verbatim>\<open>set -e\<close>, with that status; otherwise
  the script prints the status and exits with it. The trap runs in both cases.
\<close>

definition start_openclaw :: "ext \<Rightarrow> env \<Rightarrow> world \<Rightarrow> nat \<times> world \<times> event list" where
  "start_openclaw x e w =
     (case boot x e w of
        Halted code w' tr \<Rightarrow> (code, w', tr)
      | Launched w' tr \<Rightarrow>
          (case gateway_run x (gateway_argv e) w' of
             (code, w'') \<Rightarrow>
               exit_trap code w''
                 (tr @ [Cmd [''wait'', string_of_nat (gateway_pid x)]]
                     @ (if code = 0 then [Out ''Gateway exited with code 0''] else []))))"

section \<open>syncToR2 (src/gateway/sync.ts)\<close>

record sync_result =
  success :: bool
  lastSync :: "string option"
  error :: "string option"
  details :: "string option"

text \<open>
  What a \<^verbatim>\<open>catch (err)\<close> receives: an \<^verbatim>\<open>Error\<close> with its message, or another value;
  \<^verbatim>\<open>err instanceof Error ? err.message : "Unknown error"\<close>.
\<close>

datatype thrown = ErrorObject string | OtherValue

definition message_of :: "thrown \<Rightarrow> string" where
  "message_of t = (case t of ErrorObject m \<Rightarrow> m | OtherValue \<Rightarrow> ''Unknown error'')"

text \<open>
  The sandbox, as far as \<open>syncToR2\<close> depends on it. \<^verbatim>\<open>mountR2Storage\<close> and
  \<^verbatim>\<open>waitForProcess\<close> are not in the sources under study: whether the mount succeeded
  is a parameter (mounting copies nothing), and so is whether a call of the sandbox
  API throws in a \<^verbatim>\<open>try\<close> block and whether the output of a process is there when
  \<^verbatim>\<open>getLogs\<close> is called. What the \<^verbatim>\<open>rsync\<close> chain has done to the backup store within
  its 30 seconds, and what it printed, are parameters too.
\<close>

record sandbox =
  mount_ok :: bool
  check_fault :: "thrown option"
  check_output_lost :: bool
  rsync_effect :: "world \<Rightarrow> world"
  sync_fault :: "thrown option"
  sync_stdout :: "string option"
  sync_stderr :: "string option"
  timestamp_output_lost :: bool

definition dq :: string where
  "dq = [CHR 0x22]"

definition sq :: string where
  "sq = [CHR 0x27]"

definition checkCmd :: string where
  "checkCmd = ''test -f /root/.openclaw/openclaw.json && echo '' @ dq @ ''ok'' @ dq"

definition syncCmd :: string where
  "syncCmd =
     ''rsync -r --no-times --delete --exclude='' @ sq @ ''*.lock'' @ sq
     @ '' --exclude='' @ sq @ ''*.log'' @ sq @ '' --exclude='' @ sq @ ''*.tmp'' @ sq
     @ '' /root/.openclaw/ /data/openclaw/openclaw/''
     @ '' && rsync -r --no-times --delete --exclude='' @ sq @ ''skills'' @ sq
     @ '' /root/clawd/ /data/openclaw/workspace/''
     @ '' && rsync -r --no-times --delete /root/clawd/skills/ /data/openclaw/skills/''
     @ '' && date -Iseconds > /data/openclaw/.last-sync''"

definition timestampCmd :: string where
  "timestampCmd = ''cat /data/openclaw/.last-sync''"

text \<open>\<^verbatim>\<open>s.includes(sub)\<close>\<close>

fun includes_str :: "string \<Rightarrow> string \<Rightarrow> bool" where
  "includes_str [] sub = (sub = [])"
| "includes_str (c # cs) sub = (starts_with sub (c # cs) \<or> includes_str cs sub)"

text \<open>
  The standard output of \<^verbatim>\<open>test -f /root/.openclaw/openclaw.json && echo "ok"\<close> as
  \<^verbatim>\<open>logs.stdout\<close> gives it (\<open>None\<close>: \<^verbatim>\<open>undefined\<close>).
\<close>

definition check_stdout :: "sandbox \<Rightarrow> world \<Rightarrow> string option" where
  "check_stdout sx w =
     (if check_output_lost sx then None
      else Some (if config_file w \<noteq> None then ''ok'' @ [CHR 0x0A] else []))"

text \<open>\<^verbatim>\<open>/^\d{4}-\d{2}-\d{2}/\<close>\<close>

definition is_digit :: "char \<Rightarrow> bool" where
  "is_digit c = (c \<in> set ''0123456789'')"

definition date_prefix :: "string \<Rightarrow> bool" where
  "date_prefix s =
     (10 \<le> length s
      \<and> list_all is_digit (take 4 s) \<and> s ! 4 = CHR ''-''
      \<and> list_all is_digit (take 2 (drop 5 s)) \<and> s ! 7 = CHR ''-''
      \<and> list_all is_digit (take 2 (drop 8 s)))"

text \<open>\<^verbatim>\<open>a || b\<close> on a string that may be \<^verbatim>\<open>undefined\<close>.\<close>

definition or_str :: "string option \<Rightarrow> string \<Rightarrow> string" where
  "or_str a b = (case a of None \<Rightarrow> b | Some m \<Rightarrow> if m \<noteq> [] then m else b)"

definition failure :: "string \<Rightarrow> string option \<Rightarrow> sync_result" where
  "failure err det = \<lparr>success = False, lastSync = None, error = Some err, details = det\<rparr>"

text \<open>
  The result, the sandbox's files afterwards, and the commands passed to
  \<^verbatim>\<open>sandbox.startProcess\<close>, in order.
\<close>

definition syncToR2 :: "sandbox \<Rightarrow> env \<Rightarrow> world \<Rightarrow> sync_result \<times> world \<times> string list" where
  "syncToR2 sx e w =
     (if \<not> isset e ''R2_ACCESS_KEY_ID'' \<or> \<not> isset e ''R2_SECRET_ACCESS_KEY'' \<or> \<not> isset e ''CF_ACCOUNT_ID''
      then (failure ''R2 storage is not configured'' None, w, [])
      else if \<not> mount_ok sx
      then (failure ''Failed to mount R2 storage'' None, w, [])
      else
        (case check_fault sx of
           Some t \<Rightarrow> (failure ''Failed to verify source files'' (Some (message_of t)), w, [checkCmd])
         | None \<Rightarrow>
            if \<not> (case check_stdout sx w of None \<Rightarrow> False | Some out \<Rightarrow> includes_str out ''ok'')
            then (failure ''Sync aborted: no config file found''
                    (Some ''openclaw.json not found in config directory.''), w, [checkCmd])
            else
              (let w' = rsync_effect sx w in
               case sync_fault sx of
                 Some t \<Rightarrow> (failure ''Sync error'' (Some (message_of t)), w', [checkCmd, syncCmd])
               | None \<Rightarrow>
                  (let stamp = (if timestamp_output_lost sx then None
                                else Some (trim (case backup_sync w' of None \<Rightarrow> [] | Some t \<Rightarrow> t)))
                   in if (case stamp of None \<Rightarrow> False | Some t \<Rightarrow> date_prefix t)
                      then (\<lparr>success = True, lastSync = stamp, error = None, details = None\<rparr>,
                            w', [checkCmd, syncCmd, timestampCmd])
                      else (failure ''Sync failed''
                              (Some (or_str (sync_stderr sx)
                                       (or_str (sync_stdout sx) ''No timestamp file created''))),
                            w', [checkCmd, syncCmd, timestampCmd])))))"

section \<open>Notions the statements use\<close>

text \<open>
  The rank of a sync marker in the order of the specification: a missing marker is
  \<open>None\<close>, below every present marker (the order of \<open>option\<close>); a present marker has
  the epoch \<^verbatim>\<open>date -d\<close> gives it, and epoch 0 when \<^verbatim>\<open>date\<close> rejects it.
\<close>

definition marker_rank :: "(string \<Rightarrow> int option) \<Rightarrow> string option \<Rightarrow> int option" where
  "marker_rank date m = map_option (epoch_of date) m"

text \<open>
  The backup marker is strictly newer than the local marker, in the order of
  \<open>marker_rank\<close>, as the script's \<^verbatim>\<open>date\<close> reads them.
\<close>

definition backup_newer :: "ext \<Rightarrow> world \<Rightarrow> bool" where
  "backup_newer x w
     = (marker_rank (date_epoch x) (local_sync w) < marker_rank (date_epoch x) (backup_sync w))"







definition plain_word :: "string \<Rightarrow> bool" where
  "plain_word word =
     (word \<noteq> [] \<and> list_all (\<lambda>c. c \<notin> {CHR '' '', CHR 0x09, CHR 0x0A, CHR ''*'', CHR ''?'', CHR ''[''}) word)"


text \<open>Observations on a run.\<close>

definition ran_onboard :: "event list \<Rightarrow> bool" where
  "ran_onboard tr =
     list_ex (\<lambda>ev. case ev of Cmd argv \<Rightarrow> take 2 argv = [''openclaw'', ''onboard''] | _ \<Rightarrow> False) tr"

definition trace_of :: "boot_result \<Rightarrow> event list" where
  "trace_of r = (case r of Halted c w tr \<Rightarrow> tr | Launched w tr \<Rightarrow> tr)"

definition world_of :: "boot_result \<Rightarrow> world" where
  "world_of r = (case r of Launched w tr \<Rightarrow> w | Halted c w tr \<Rightarrow> w)"

definition launched :: "boot_result \<Rightarrow> bool" where
  "launched r = (case r of Launched w tr \<Rightarrow> True | Halted c w tr \<Rightarrow> False)"

text \<open>
  The events this script can produce under environment \<open>e\<close>: output, foreground
  commands, and the gateway started in the background.
\<close>

definition shell_event :: "env \<Rightarrow> event \<Rightarrow> bool" where
  "shell_event e ev =
     (case ev of Out l \<Rightarrow> True | Cmd a \<Rightarrow> True | Spawn a \<Rightarrow> a = gateway_argv e | Exec a \<Rightarrow> False)"

subsection \<open>Documents and paths\<close>

text \<open>
  \<open>lookup_path x ks\<close> reads \<^verbatim>\<open>x?.k1?.k2 ...\<close>. \<open>persisted_token\<close> is the token the
  credential store holds for the profile \<^verbatim>\<open>anthropic:default\<close>,
  \<^verbatim>\<open>profiles?.profiles?.['anthropic:default']?.token\<close>.
\<close>

fun lookup_path :: "json option \<Rightarrow> string list \<Rightarrow> json option" where
  "lookup_path x [] = x"
| "lookup_path x (k # ks) = lookup_path (chain x k) ks"

definition persisted_token :: "jfile \<Rightarrow> json option" where
  "persisted_token pf = chain (chain (chain (load pf) ''profiles'') profileId) ''token''"

text \<open>
  A document is a key-value tree along a path when it is an object and every truthy
  value met on the path is an object again (absent and falsy entries are replaced by
  \<^verbatim>\<open>{}\<close> by the scripts). \<open>store_shaped\<close> says so of the credential store along
  \<^verbatim>\<open>profiles\<close>, \<open>config_shaped\<close> of the configuration document along
  \<^verbatim>\<open>auth.profiles\<close> and \<^verbatim>\<open>models.providers\<close>. A file that is absent or does not
  parse counts as \<^verbatim>\<open>{}\<close>, as in the scripts.
\<close>

definition is_object :: "json \<Rightarrow> bool" where
  "is_object v = (case v of JObj kvs \<Rightarrow> True | _ \<Rightarrow> False)"

fun objects_along :: "string list \<Rightarrow> json \<Rightarrow> bool" where
  "objects_along [] v = is_object v"
| "objects_along (k # ks) v =
     (is_object v \<and> (case getp v k of None \<Rightarrow> True | Some u \<Rightarrow> truthy u \<longrightarrow> objects_along ks u))"

definition store_shaped :: "jfile \<Rightarrow> bool" where
  "store_shaped pf = (case load pf of None \<Rightarrow> True | Some r \<Rightarrow> objects_along [''profiles''] r)"

definition config_shaped :: "jfile \<Rightarrow> bool" where
  "config_shaped cf =
     (case load cf of None \<Rightarrow> True
      | Some c \<Rightarrow> objects_along [''auth'', ''profiles''] c \<and> objects_along [''models'', ''providers''] c)"

subsection \<open>Sample inputs\<close>

definition toy_date :: "string \<Rightarrow> int option" where
  "toy_date s = (if s = ''2024-01-01T00:00:00Z'' then Some 1704067200
                 else if s = ''2023-06-01T00:00:00Z'' then Some 1685577600 else None)"

text \<open>Nothing exists: no configuration, no lock, no backup, nothing listening.\<close>

definition fresh_world :: world where
  "fresh_world =
     \<lparr>probe_ok = False, lockdir = False, config_file = None, profiles_file = None,
      local_sync = None, tmp_gateway_lock = False, cfg_gateway_lock = False,
      workspace_files = [], skills_files = [], backup_dir = False, backup_sync = None,
      backup_config = None, backup_profiles = None, backup_config_sync = None,
      backup_workspace = [], backup_skills = []\<rparr>"

text \<open>
  No interference and no failure: copies complete, no pattern matches a pathname,
  \<^verbatim>\<open>openclaw onboard\<close> writes an empty configuration, the gateway ends with status 0.
\<close>

definition quiet_ext :: ext where
  "quiet_ext =
     \<lparr>date_epoch = toy_date, lock_race = False, cp_config = CpConfigOk,
      cp_workspace = CpTreeOk, cp_skills = CpTreeOk, pathnames = (\<lambda>pattern. []),
      onboard_run = (\<lambda>argv w. (0, Some (Json (JObj [])), None)),
      gateway_pid = 4242,
      gateway_run = (\<lambda>argv w. (0, w))\<rparr>"

text \<open>
  As \<open>quiet_ext\<close>, but the gateway ends with status 3 and the lock directory is gone by
  then (another invocation has taken the lock as stale and has removed it at its own
  exit).
\<close>

definition lost_lock_ext :: ext where
  "lost_lock_ext = quiet_ext\<lparr>gateway_run := (\<lambda>argv w. (3, w\<lparr>lockdir := False\<rparr>))\<rparr>"

definition token_env :: env where
  "token_env = [''OPENCLAW_GATEWAY_TOKEN'' \<mapsto> ''s3cret'']"

text \<open>
  The files right after a first invocation has taken the lock from the fresh state:
  the lock directory exists, held by that running invocation, and the gateway is not
  started yet, so the port does not answer.
\<close>

definition held_world :: world where
  "held_world = fst (snd (acquire_lock quiet_ext fresh_world))"

text \<open>A gateway answers on the port while a lock directory exists.\<close>

definition live_world :: world where
  "live_world = fresh_world\<lparr>probe_ok := True, lockdir := True\<rparr>"

text \<open>A local configuration \<^verbatim>\<open>{}\<close>, and a backup that is newer than the local state.\<close>

definition configured_world :: world where
  "configured_world =
     fresh_world\<lparr>config_file := Some (Json (JObj [])),
                 local_sync := Some ''2023-06-01T00:00:00Z'',
                 backup_dir := True,
                 backup_sync := Some ''2024-01-01T00:00:00Z'',
                 backup_config := Some (Json (JObj [(''gateway'', JObj [])]))\<rparr>"

text \<open>No local state, and a backup with a marker and a configuration document.\<close>

definition backup_only_world :: world where
  "backup_only_world =
     fresh_world\<lparr>backup_dir := True,
                 backup_sync := Some ''2024-01-01T00:00:00Z'',
                 backup_config := Some (Json (JObj [(''gateway'', JObj [])]))\<rparr>"


definition r2_env :: env where
  "r2_env =
     [''R2_ACCESS_KEY_ID'' \<mapsto> ''id'', ''R2_SECRET_ACCESS_KEY'' \<mapsto> ''secret'',
      ''CF_ACCOUNT_ID'' \<mapsto> ''acct'']"

definition plain_sandbox :: sandbox where
  "plain_sandbox =
     \<lparr>mount_ok = True, check_fault = None, check_output_lost = False,
      rsync_effect = (\<lambda>w. w\<lparr>backup_config := config_file w,
                               backup_sync := Some ''2024-01-01T00:00:00+00:00''\<rparr>),
      sync_fault = None, sync_stdout = None, sync_stderr = None,
      timestamp_output_lost = False\<rparr>"

text \<open>
  A setup token given with white space around it (a no-break space, a space and a
  TAB in front, a space and a line feed behind); a credential store in which the
  operator has set a token; a credential store whose \<^verbatim>\<open>profiles\<close> entry is a list;
  a configuration whose \<^verbatim>\<open>auth\<close> entry is a list.
\<close>

definition setup_env :: env where
  "setup_env = [''CLAUDE_SETUP_TOKEN'' \<mapsto> CHR 0xA0 # CHR '' '' # CHR 0x09 # ''tok-123 '' @ [CHR 0x0A]]"

definition admin_world :: world where
  "admin_world =
     fresh_world\<lparr>profiles_file :=
        Some (Json (JObj [(''profiles'',
           JObj [(''anthropic:default'', JObj [(''type'', JStr ''token''), (''token'', JStr ''admin'')])])]))\<rparr>"


definition list_auth_world :: world where
  "list_auth_world = fresh_world\<lparr>config_file := Some (Json (JObj [(''auth'', JArr [] [])]))\<rparr>"

text \<open>
  A backup that holds a configuration, a workspace and skills, with a marker, next to
  an empty local state; the same backup without the configuration; and the first one
  with the local marker equal to the backup's.
\<close>

definition full_backup_world :: world where
  "full_backup_world =
     fresh_world\<lparr>backup_dir := True,
                 backup_sync := Some ''2024-01-01T00:00:00Z'',
                 backup_config := Some (Json (JObj [(''gateway'', JObj [])])),
                 backup_workspace := [(''IDENTITY.md'', ''I am the agent'')],
                 backup_skills := [(''search/SKILL.md'', ''how to search'')]\<rparr>"

definition trees_backup_world :: world where
  "trees_backup_world =
     fresh_world\<lparr>backup_dir := True,
                 backup_sync := Some ''2024-01-01T00:00:00Z'',
                 backup_workspace := [(''IDENTITY.md'', ''I am the agent'')],
                 backup_skills := [(''search/SKILL.md'', ''how to search'')]\<rparr>"

definition synced_world :: world where
  "synced_world = full_backup_world\<lparr>local_sync := Some ''2024-01-01T00:00:00Z''\<rparr>"


section \<open>Lemmas on the script\<close>

lemma ran_onboard_append [simp]: "ran_onboard (a @ b) = (ran_onboard a \<or> ran_onboard b)"
  by (simp add: ran_onboard_def)

lemma ran_onboard_Cons [simp]:
  "ran_onboard (ev # tr) = ((case ev of Cmd argv \<Rightarrow> take 2 argv = [''openclaw'', ''onboard''] | _ \<Rightarrow> False) \<or> ran_onboard tr)"
  by (simp add: ran_onboard_def)

lemma ran_onboard_Nil [simp]: "ran_onboard [] = False"
  by (simp add: ran_onboard_def)

lemma ran_onboard_Out [simp]: "ran_onboard (map Out ls) = False"
  by (induction ls) simp_all

lemma restore_config_no_onboard [simp]: "ran_onboard (snd (restore_config x w)) = False"
  by (simp add: restore_config_def Let_def split: prod.splits cp_config_outcome.splits)

lemma restore_workspace_no_onboard [simp]: "ran_onboard (snd (restore_workspace x w)) = False"
  by (simp add: restore_workspace_def Let_def split: prod.splits cp_tree_outcome.splits)

lemma restore_skills_no_onboard [simp]: "ran_onboard (snd (restore_skills x w)) = False"
  by (simp add: restore_skills_def Let_def split: prod.splits cp_tree_outcome.splits)

lemma restore_all_no_onboard [simp]: "ran_onboard (snd (restore_all x w)) = False"
proof -
  obtain w1 t1 where r1: "restore_config x w = (w1, t1)" by (cases "restore_config x w")
  obtain w2 t2 where r2: "restore_workspace x w1 = (w2, t2)" by (cases "restore_workspace x w1")
  obtain w3 t3 where r3: "restore_skills x w2 = (w3, t3)" by (cases "restore_skills x w2")
  have "ran_onboard t1 = False" using restore_config_no_onboard [of x w] r1 by simp
  moreover have "ran_onboard t2 = False" using restore_workspace_no_onboard [of x w1] r2 by simp
  moreover have "ran_onboard t3 = False" using restore_skills_no_onboard [of x w2] r3 by simp
  ultimately show ?thesis by (simp add: restore_all_def r1 r2 r3)
qed

lemma onboard_step_ran [simp]:
  "ran_onboard (snd (snd (onboard_step x e w))) = (config_file w = None)"
  by (simp add: onboard_step_def onboard_argv_def split: prod.splits)

lemma patch_step_no_onboard [simp]: "ran_onboard (snd (snd (patch_step e w))) = False"
  by (simp add: patch_step_def split: prod.splits)

lemma inject_step_no_onboard [simp]: "ran_onboard (snd (snd (inject_step e w))) = False"
  by (simp add: inject_step_def split: prod.splits)

lemma launch_no_onboard [simp]: "ran_onboard (snd (launch x e w)) = False"
  by (simp add: launch_def gateway_argv_def)

lemma acquire_no_onboard [simp]: "ran_onboard (snd (snd (acquire_lock x w))) = False"
  by (simp add: acquire_lock_def Let_def)

lemma acquire_lock_fst: "fst (acquire_lock x w) = (\<not> (lockdir w \<and> lock_race x))"
  by (simp add: acquire_lock_def Let_def)

lemma acquire_lock_world: "fst (snd (acquire_lock x w)) = w\<lparr>lockdir := True\<rparr>"
  by (simp add: acquire_lock_def Let_def)

lemma and_then_None:
  "and_then (None, w, t) f = (fst (f w), fst (snd (f w)), t @ snd (snd (f w)))"
  by (simp add: and_then_def split: prod.splits)

lemma and_then_Some: "and_then (Some c, w, t) f = (Some c, w, t)"
  by (simp add: and_then_def)

lemma ran_onboard_and_then:
  "ran_onboard (snd (snd (and_then r f)))
     = (ran_onboard (snd (snd r)) \<or> (fst r = None \<and> ran_onboard (snd (snd (f (fst (snd r)))))))"
  by (cases r; cases "fst r") (auto simp add: and_then_None and_then_Some)

lemma no_exit_simps [simp]:
  "fst (no_exit r) = None" "fst (snd (no_exit r)) = fst r" "snd (snd (no_exit r)) = snd r"
  by (cases r; simp add: no_exit_def)+

lemma fst_and_then: "fst (and_then r f) = (case fst r of Some c \<Rightarrow> Some c | None \<Rightarrow> fst (f (fst (snd r))))"
  by (cases r; cases "fst r") (auto simp add: and_then_None and_then_Some)

lemma world_and_then:
  "fst (snd (and_then r f)) = (case fst r of Some c \<Rightarrow> fst (snd r) | None \<Rightarrow> fst (snd (f (fst (snd r)))))"
  by (cases r; cases "fst r") (auto simp add: and_then_None and_then_Some)

lemma locked_body_onboard:
  "ran_onboard (snd (snd (locked_body x e w0))) = (config_file (fst (restore_all x w0)) = None)"
  by (simp add: locked_body_def prepare_def ran_onboard_and_then fst_and_then world_and_then)

lemma start_trace:
  "ran_onboard (snd (snd (start_openclaw x e w))) = ran_onboard (trace_of (boot x e w))"
  by (simp add: start_openclaw_def trace_of_def exit_trap_def LOCKFILE_def split: boot_result.splits prod.splits)

lemma boot_onboard:
  "ran_onboard (trace_of (boot x e w))
     = (\<not> probe_ok w \<and> \<not> (lockdir w \<and> lock_race x)
        \<and> config_file (fst (restore_all x (w\<lparr>lockdir := True\<rparr>))) = None)"
proof (cases "probe_ok w")
  case True
  then show ?thesis by (simp add: boot_def trace_of_def probe_cmd_def)
next
  case False
  obtain ok w0 t0 where a: "acquire_lock x w = (ok, w0, t0)" by (cases "acquire_lock x w")
  have ok: "ok = (\<not> (lockdir w \<and> lock_race x))" using acquire_lock_fst [of x w] a by simp
  have w0: "w0 = w\<lparr>lockdir := True\<rparr>" using acquire_lock_world [of x w] a by simp
  have t0: "ran_onboard t0 = False" using acquire_no_onboard [of x w] a by simp
  obtain c1 w1 t1 where b: "locked_body x e w0 = (c1, w1, t1)" by (cases "locked_body x e w0")
  have t1: "ran_onboard t1 = (config_file (fst (restore_all x w0)) = None)"
    using locked_body_onboard [of x e w0] b by simp
  from False a ok w0 t0 b t1 show ?thesis
    by (cases ok; cases c1)
       (simp_all add: boot_def trace_of_def probe_cmd_def halt_trap_def exit_trap_def LOCKFILE_def)
qed

lemma overwrite_Some: "dst \<noteq> None \<Longrightarrow> overwrite dst src \<noteq> None"
  by (simp add: overwrite_def split: option.splits)

lemma restore_config_keeps: "config_file w \<noteq> None \<Longrightarrow> config_file (fst (restore_config x w)) \<noteq> None"
  by (auto simp add: restore_config_def overwrite_def Let_def split: prod.splits cp_config_outcome.splits option.splits)

lemma restore_workspace_config [simp]: "config_file (fst (restore_workspace x w)) = config_file w"
  by (auto simp add: restore_workspace_def Let_def split: prod.splits cp_tree_outcome.splits)

lemma restore_skills_config [simp]: "config_file (fst (restore_skills x w)) = config_file w"
  by (auto simp add: restore_skills_def Let_def split: prod.splits cp_tree_outcome.splits)

lemma restore_all_config: "config_file (fst (restore_all x w)) = config_file (fst (restore_config x w))"
proof -
  obtain w1 t1 where r1: "restore_config x w = (w1, t1)" by (cases "restore_config x w")
  obtain w2 t2 where r2: "restore_workspace x w1 = (w2, t2)" by (cases "restore_workspace x w1")
  obtain w3 t3 where r3: "restore_skills x w2 = (w3, t3)" by (cases "restore_skills x w2")
  have "config_file w2 = config_file w1" using restore_workspace_config [of x w1] r2 by simp
  moreover have "config_file w3 = config_file w2" using restore_skills_config [of x w2] r3 by simp
  ultimately show ?thesis by (simp add: restore_all_def r1 r2 r3)
qed

lemma restore_config_copied:
  "backup_config w \<noteq> None \<Longrightarrow> fst (should_restore_from_r2 (date_epoch x) (backup_sync w) (local_sync w))
     \<Longrightarrow> cp_config x = CpConfigOk \<Longrightarrow> config_file (fst (restore_config x w)) = backup_config w"
  by (auto simp add: restore_config_def overwrite_def Let_def split: prod.splits)

lemma shell_events_append [simp]:
  "list_all (shell_event e) (a @ b) = (list_all (shell_event e) a \<and> list_all (shell_event e) b)"
  by simp

lemma shell_events_Out [simp]: "list_all (shell_event e) (map Out ls)"
  by (induction ls) (simp_all add: shell_event_def)

lemma shell_restore_config: "list_all (shell_event e) (snd (restore_config x w))"
  by (simp add: restore_config_def Let_def shell_event_def split: prod.splits cp_config_outcome.splits)

lemma shell_restore_workspace: "list_all (shell_event e) (snd (restore_workspace x w))"
  by (simp add: restore_workspace_def Let_def shell_event_def split: prod.splits cp_tree_outcome.splits)

lemma shell_restore_skills: "list_all (shell_event e) (snd (restore_skills x w))"
  by (simp add: restore_skills_def Let_def shell_event_def split: prod.splits cp_tree_outcome.splits)

lemma shell_restore_all: "list_all (shell_event e) (snd (restore_all x w))"
proof -
  obtain w1 t1 where r1: "restore_config x w = (w1, t1)" by (cases "restore_config x w")
  obtain w2 t2 where r2: "restore_workspace x w1 = (w2, t2)" by (cases "restore_workspace x w1")
  obtain w3 t3 where r3: "restore_skills x w2 = (w3, t3)" by (cases "restore_skills x w2")
  have "list_all (shell_event e) t1" using shell_restore_config [of e x w] r1 by simp
  moreover have "list_all (shell_event e) t2" using shell_restore_workspace [of e x w1] r2 by simp
  moreover have "list_all (shell_event e) t3" using shell_restore_skills [of e x w2] r3 by simp
  ultimately show ?thesis by (simp add: restore_all_def r1 r2 r3)
qed

lemma shell_onboard: "list_all (shell_event e) (snd (snd (onboard_step x e' w)))"
  by (simp add: onboard_step_def shell_event_def split: prod.splits)

lemma shell_patch: "list_all (shell_event e) (snd (snd (patch_step e' w)))"
  by (simp add: patch_step_def shell_event_def split: prod.splits)

lemma shell_inject: "list_all (shell_event e) (snd (snd (inject_step e' w)))"
  by (simp add: inject_step_def shell_event_def split: prod.splits)

lemma shell_launch: "list_all (shell_event e) (snd (launch x e w))"
  by (simp add: launch_def shell_event_def)

lemma shell_acquire: "list_all (shell_event e) (snd (snd (acquire_lock x w)))"
  by (simp add: acquire_lock_def Let_def shell_event_def)

lemma shell_and_then:
  "list_all (shell_event e) (snd (snd r)) \<Longrightarrow> (\<And>w. list_all (shell_event e) (snd (snd (f w))))
     \<Longrightarrow> list_all (shell_event e) (snd (snd (and_then r f)))"
  by (cases r; cases "fst r") (auto simp add: and_then_None and_then_Some)

lemma shell_locked_body: "list_all (shell_event e) (snd (snd (locked_body x e w)))"
  unfolding locked_body_def prepare_def
  by (intro shell_and_then)
     (simp_all add: shell_restore_all shell_onboard shell_patch shell_inject shell_launch shell_event_def)

lemma shell_boot: "list_all (shell_event e) (trace_of (boot x e w))"
proof -
  obtain ok w0 t0 where a: "acquire_lock x w = (ok, w0, t0)" by (cases "acquire_lock x w")
  have t0: "list_all (shell_event e) t0" using shell_acquire [of e x w] a by simp
  obtain c1 w1 t1 where b: "locked_body x e w0 = (c1, w1, t1)" by (cases "locked_body x e w0")
  have t1: "list_all (shell_event e) t1" using shell_locked_body [of e x w0] b by simp
  from a t0 b t1 show ?thesis
    by (cases ok; cases c1)
       (simp_all add: boot_def trace_of_def probe_cmd_def halt_trap_def exit_trap_def shell_event_def)
qed

lemma shell_start: "list_all (shell_event e) (snd (snd (start_openclaw x e w)))"
  using shell_boot [of e x w]
  by (simp add: start_openclaw_def trace_of_def exit_trap_def shell_event_def split: boot_result.splits prod.splits)

lemma no_exec: "Exec argv \<notin> set (snd (snd (start_openclaw x e w)))"
  using shell_start [of e x w] by (auto simp add: list_all_iff shell_event_def)

lemma lockdir_restore_config [simp]: "lockdir (fst (restore_config x w)) = lockdir w"
  by (simp add: restore_config_def Let_def split: prod.splits cp_config_outcome.splits)

lemma lockdir_restore_workspace [simp]: "lockdir (fst (restore_workspace x w)) = lockdir w"
  by (simp add: restore_workspace_def Let_def split: prod.splits cp_tree_outcome.splits)

lemma lockdir_restore_skills [simp]: "lockdir (fst (restore_skills x w)) = lockdir w"
  by (simp add: restore_skills_def Let_def split: prod.splits cp_tree_outcome.splits)

lemma restore_all_fst:
  "fst (restore_all x w) = fst (restore_skills x (fst (restore_workspace x (fst (restore_config x w)))))"
  by (simp add: restore_all_def split: prod.splits)

lemma lockdir_restore_all [simp]: "lockdir (fst (restore_all x w)) = lockdir w"
  by (simp add: restore_all_fst)

lemma lockdir_onboard [simp]: "lockdir (fst (snd (onboard_step x e w))) = lockdir w"
  by (simp add: onboard_step_def split: prod.splits)

lemma lockdir_patch [simp]: "lockdir (fst (snd (patch_step e w))) = lockdir w"
  by (simp add: patch_step_def split: prod.splits)

lemma lockdir_inject [simp]: "lockdir (fst (snd (inject_step e w))) = lockdir w"
  by (simp add: inject_step_def split: prod.splits)

lemma lockdir_launch [simp]: "lockdir (fst (launch x e w)) = lockdir w"
  by (simp add: launch_def)

lemma lockdir_and_then:
  "(\<And>w. lockdir (fst (snd (f w))) = lockdir w)
     \<Longrightarrow> lockdir (fst (snd (and_then r f))) = lockdir (fst (snd r))"
  by (cases r; cases "fst r") (auto simp add: and_then_None and_then_Some)

lemma lockdir_prepare: "lockdir (fst (snd (prepare x e w))) = lockdir w"
  unfolding prepare_def
  apply (subst lockdir_and_then, simp)
  apply (subst lockdir_and_then, simp)
  apply (subst lockdir_and_then, simp)
  apply (subst lockdir_and_then, simp)
  apply simp
  done

lemma lockdir_locked_body: "lockdir (fst (snd (locked_body x e w))) = lockdir w"
  unfolding locked_body_def
  apply (subst lockdir_and_then, simp)
  apply (rule lockdir_prepare)
  done

lemma spawn_in_launch: "Spawn (gateway_argv e) \<in> set (snd (launch x e w))"
  by (simp add: launch_def)

lemma and_then_last:
  "fst (and_then r f) = None \<Longrightarrow> set (snd (snd (f (fst (snd r))))) \<subseteq> set (snd (snd (and_then r f)))"
  by (cases r; cases "fst r") (auto simp add: and_then_None and_then_Some)

lemma spawn_in_body:
  assumes "fst (locked_body x e w) = None"
  shows "Spawn (gateway_argv e) \<in> set (snd (snd (locked_body x e w)))"
proof -
  let ?f = "\<lambda>w. no_exit (launch x e w)"
  have "set (snd (snd (?f (fst (snd (prepare x e w)))))) \<subseteq> set (snd (snd (locked_body x e w)))"
    using assms and_then_last [of "prepare x e w" ?f] by (simp add: locked_body_def)
  moreover have "Spawn (gateway_argv e) \<in> set (snd (snd (?f (fst (snd (prepare x e w))))))"
    by (simp add: spawn_in_launch)
  ultimately show ?thesis by blast
qed

lemma boot_cases:
  "boot x e w =
     (if probe_ok w
      then Halted 0 w [probe_cmd, Out ''OpenClaw gateway is already running on port 18789, exiting.'']
      else if lockdir w \<and> lock_race x
      then Halted 1 (w\<lparr>lockdir := True\<rparr>) (probe_cmd # snd (snd (acquire_lock x w)))
      else (case fst (locked_body x e (w\<lparr>lockdir := True\<rparr>)) of
              Some code \<Rightarrow>
                Halted code (fst (snd (locked_body x e (w\<lparr>lockdir := True\<rparr>)))\<lparr>lockdir := False\<rparr>)
                  (probe_cmd # snd (snd (acquire_lock x w))
                   @ snd (snd (locked_body x e (w\<lparr>lockdir := True\<rparr>))) @ [Cmd [''rmdir'', LOCKFILE]])
            | None \<Rightarrow>
                Launched (fst (snd (locked_body x e (w\<lparr>lockdir := True\<rparr>))))
                  (probe_cmd # snd (snd (acquire_lock x w))
                   @ snd (snd (locked_body x e (w\<lparr>lockdir := True\<rparr>))))))"
proof -
  obtain ok w0 t0 where a: "acquire_lock x w = (ok, w0, t0)" by (cases "acquire_lock x w")
  have ok: "ok = (\<not> (lockdir w \<and> lock_race x))" using acquire_lock_fst [of x w] a by simp
  have w0: "w0 = w\<lparr>lockdir := True\<rparr>" using acquire_lock_world [of x w] a by simp
  obtain c1 w1 t1 where b: "locked_body x e w0 = (c1, w1, t1)" by (cases "locked_body x e w0")
  have held: "lockdir w1" using lockdir_locked_body [of x e w0] b w0 by simp
  from a ok w0 b held show ?thesis
    by (cases ok; cases c1) (auto simp add: boot_def halt_trap_def exit_trap_def)
qed

lemma stale_lock_recovery:
  "lockdir w \<Longrightarrow>
     acquire_lock x w
       = (\<not> lock_race x, w\<lparr>lockdir := True\<rparr>,
          [Cmd [''mkdir'', LOCKFILE],
           Out ''Stale lockfile detected (gateway not running), recovering...'',
           Cmd [''rm'', ''-rf'', LOCKFILE],
           Cmd [''mkdir'', LOCKFILE]]
          @ (if lock_race x then [Out ''Failed to acquire lock after recovery, exiting.''] else []))"
  by (simp add: acquire_lock_def Let_def)

lemma lock_failure_aborts:
  "\<not> probe_ok w \<Longrightarrow> lockdir w \<Longrightarrow> lock_race x \<Longrightarrow>
     start_openclaw x e w
       = (1, w\<lparr>lockdir := True\<rparr>,
          [probe_cmd, Cmd [''mkdir'', LOCKFILE],
           Out ''Stale lockfile detected (gateway not running), recovering...'',
           Cmd [''rm'', ''-rf'', LOCKFILE],
           Cmd [''mkdir'', LOCKFILE],
           Out ''Failed to acquire lock after recovery, exiting.''])"
  by (simp add: start_openclaw_def boot_def stale_lock_recovery)

lemma launched_iff:
  "launched (boot x e w)
     = (\<not> probe_ok w \<and> \<not> (lockdir w \<and> lock_race x)
        \<and> fst (locked_body x e (w\<lparr>lockdir := True\<rparr>)) = None)"
  by (simp add: boot_cases launched_def split: option.splits)

lemma launched_spawn:
  "launched (boot x e w) \<Longrightarrow> Spawn (gateway_argv e) \<in> set (trace_of (boot x e w))"
  using spawn_in_body [of x e "w\<lparr>lockdir := True\<rparr>"]
  by (auto simp add: boot_cases launched_def trace_of_def split: if_splits option.splits)

lemma launched_lock_held: "launched (boot x e w) \<Longrightarrow> lockdir (world_of (boot x e w))"
  using lockdir_locked_body [of x e "w\<lparr>lockdir := True\<rparr>"]
  by (auto simp add: boot_cases launched_def world_of_def split: if_splits option.splits)

lemma boot_trace_in_run: "set (trace_of (boot x e w)) \<subseteq> set (snd (snd (start_openclaw x e w)))"
  by (auto simp add: start_openclaw_def trace_of_def exit_trap_def split: boot_result.splits prod.splits)

lemma recovery_in_trace:
  "\<not> probe_ok w \<Longrightarrow> lockdir w \<Longrightarrow> Cmd [''rm'', ''-rf'', LOCKFILE] \<in> set (trace_of (boot x e w))"
  by (simp add: boot_cases trace_of_def stale_lock_recovery split: option.splits)

lemma sample_body_ok: "fst (locked_body quiet_ext token_env (fresh_world\<lparr>lockdir := True\<rparr>)) = None"
  by code_simp

lemma sample_launched: "launched (boot quiet_ext token_env fresh_world)"
  by (simp add: launched_iff sample_body_ok) (simp add: fresh_world_def)

lemma restore_config_gateway_run [simp]: "restore_config (x\<lparr>gateway_run := g\<rparr>) w = restore_config x w"
  by (simp add: restore_config_def cong del: if_weak_cong cong: if_cong prod.case_cong cp_config_outcome.case_cong)

lemma restore_workspace_gateway_run [simp]: "restore_workspace (x\<lparr>gateway_run := g\<rparr>) w = restore_workspace x w"
  by (simp add: restore_workspace_def cong del: if_weak_cong cong: if_cong prod.case_cong cp_tree_outcome.case_cong)

lemma restore_skills_gateway_run [simp]: "restore_skills (x\<lparr>gateway_run := g\<rparr>) w = restore_skills x w"
  by (simp add: restore_skills_def cong del: if_weak_cong cong: if_cong prod.case_cong cp_tree_outcome.case_cong)

lemma restore_all_gateway_run [simp]: "restore_all (x\<lparr>gateway_run := g\<rparr>) w = restore_all x w"
  by (simp add: restore_all_def)

lemma expand_word_gateway_run [simp]: "expand_word (x\<lparr>gateway_run := g\<rparr>) = expand_word x"
  by (rule ext) (simp add: expand_word_def)

lemma onboard_argv_gateway_run [simp]: "onboard_argv (x\<lparr>gateway_run := g\<rparr>) e = onboard_argv x e"
  by (simp add: onboard_argv_def)

lemma onboard_step_gateway_run [simp]: "onboard_step (x\<lparr>gateway_run := g\<rparr>) e = onboard_step x e"
  by (rule ext) (simp add: onboard_step_def cong: if_cong prod.case_cong)

lemma launch_gateway_run [simp]: "launch (x\<lparr>gateway_run := g\<rparr>) e w = launch x e w"
  by (simp add: launch_def)

lemma locked_body_gateway_run [simp]: "locked_body (x\<lparr>gateway_run := g\<rparr>) e w = locked_body x e w"
  by (simp add: locked_body_def prepare_def)

lemma sample_launched_lost_lock: "launched (boot lost_lock_ext token_env fresh_world)"
  by (simp add: launched_iff lost_lock_ext_def sample_body_ok) (simp add: fresh_world_def quiet_ext_def)

text \<open>The restore step\<close>

lemma should_restore_iff:
  "fst (should_restore_from_r2 date backup_marker local_marker)
     = (marker_rank date local_marker < marker_rank date backup_marker)"
  by (cases backup_marker; cases local_marker)
     (simp_all add: should_restore_from_r2_def marker_rank_def)

lemma restore_config_skip: "\<not> backup_newer x w \<Longrightarrow> fst (restore_config x w) = w"
  using should_restore_iff [of "date_epoch x" "backup_sync w" "local_sync w"]
  by (cases "should_restore_from_r2 (date_epoch x) (backup_sync w) (local_sync w)")
     (simp add: restore_config_def backup_newer_def)

lemma restore_workspace_skip: "\<not> backup_newer x w \<Longrightarrow> fst (restore_workspace x w) = w"
  using should_restore_iff [of "date_epoch x" "backup_sync w" "local_sync w"]
  by (cases "should_restore_from_r2 (date_epoch x) (backup_sync w) (local_sync w)")
     (simp add: restore_workspace_def backup_newer_def)

lemma restore_skills_skip: "\<not> backup_newer x w \<Longrightarrow> fst (restore_skills x w) = w"
  using should_restore_iff [of "date_epoch x" "backup_sync w" "local_sync w"]
  by (cases "should_restore_from_r2 (date_epoch x) (backup_sync w) (local_sync w)")
     (simp add: restore_skills_def backup_newer_def)

lemma restore_all_world:
  "fst (restore_all x w) = fst (restore_skills x (fst (restore_workspace x (fst (restore_config x w)))))"
  by (simp add: restore_all_def split: prod.splits)

lemma backup_newer_cong:
  "local_sync w' = local_sync w \<Longrightarrow> backup_sync w' = backup_sync w \<Longrightarrow> backup_newer x w' = backup_newer x w"
  by (simp add: backup_newer_def)

lemma backup_newer_equal: "local_sync w = backup_sync w \<Longrightarrow> \<not> backup_newer x w"
  by (simp add: backup_newer_def)

lemma backup_newer_Some: "backup_newer x w \<Longrightarrow> \<exists>t. backup_sync w = Some t"
  by (cases "backup_sync w") (simp_all add: backup_newer_def marker_rank_def)

lemma restore_config_ok:
  assumes n: "backup_newer x w" and c: "backup_config w \<noteq> None" and ok: "cp_config x = CpConfigOk"
  shows "fst (restore_config x w)
           = w\<lparr>config_file := backup_config w,
                profiles_file := overwrite (profiles_file w) (backup_profiles w),
                local_sync := backup_sync w\<rparr>"
proof -
  from backup_newer_Some [OF n] obtain t where t: "backup_sync w = Some t" by blast
  from c obtain j where j: "backup_config w = Some j" by (cases "backup_config w") simp_all
  from n have go: "fst (should_restore_from_r2 (date_epoch x) (backup_sync w) (local_sync w))"
    by (simp add: should_restore_iff backup_newer_def)
  then show ?thesis
    using ok t j
    by (cases "should_restore_from_r2 (date_epoch x) (backup_sync w) (local_sync w)")
       (simp add: restore_config_def overwrite_def Let_def)
qed

lemma restore_workspace_ok:
  assumes n: "backup_newer x w" and ok: "cp_workspace x = CpTreeOk"
  shows "fst (restore_workspace x w)
           = w\<lparr>workspace_files := AList.merge (workspace_files w) (backup_workspace w)\<rparr>"
proof -
  from n have go: "fst (should_restore_from_r2 (date_epoch x) (backup_sync w) (local_sync w))"
    by (simp add: should_restore_iff backup_newer_def)
  then show ?thesis
    using ok
    by (cases "should_restore_from_r2 (date_epoch x) (backup_sync w) (local_sync w)";
        cases "backup_workspace w = []")
       (simp_all add: restore_workspace_def Let_def AList.merge_def)
qed

lemma restore_skills_ok:
  assumes n: "backup_newer x w" and ok: "cp_skills x = CpTreeOk"
  shows "fst (restore_skills x w)
           = w\<lparr>skills_files := AList.merge (skills_files w) (backup_skills w)\<rparr>"
proof -
  from n have go: "fst (should_restore_from_r2 (date_epoch x) (backup_sync w) (local_sync w))"
    by (simp add: should_restore_iff backup_newer_def)
  then show ?thesis
    using ok
    by (cases "should_restore_from_r2 (date_epoch x) (backup_sync w) (local_sync w)";
        cases "backup_skills w = []")
       (simp_all add: restore_skills_def Let_def AList.merge_def)
qed

lemma sample_markers:
  "backup_newer quiet_ext full_backup_world \<and> backup_newer quiet_ext trees_backup_world
   \<and> \<not> backup_newer quiet_ext synced_world"
  by (simp add: backup_newer_def full_backup_world_def trees_backup_world_def synced_world_def
        fresh_world_def marker_rank_def)

lemma sample_backups:
  "backup_config full_backup_world = Some (Json (JObj [(''gateway'', JObj [])]))
   \<and> backup_workspace full_backup_world = [(''IDENTITY.md'', ''I am the agent'')]
   \<and> backup_skills full_backup_world = [(''search/SKILL.md'', ''how to search'')]
   \<and> workspace_files full_backup_world = [] \<and> skills_files full_backup_world = []
   \<and> backup_sync full_backup_world = Some ''2024-01-01T00:00:00Z''
   \<and> backup_config trees_backup_world = None
   \<and> backup_workspace trees_backup_world = [(''IDENTITY.md'', ''I am the agent'')]
   \<and> backup_skills trees_backup_world = [(''search/SKILL.md'', ''how to search'')]
   \<and> workspace_files trees_backup_world = [] \<and> skills_files trees_backup_world = []"
  by (simp add: full_backup_world_def trees_backup_world_def fresh_world_def)

lemma quiet_copies:
  "cp_config quiet_ext = CpConfigOk \<and> cp_workspace quiet_ext = CpTreeOk \<and> cp_skills quiet_ext = CpTreeOk"
  by (simp add: quiet_ext_def)

text \<open>The words of onboarding\<close>

lemma split_words_plain_more:
  "list_all (\<lambda>c. c \<notin> {CHR '' '', CHR 0x09, CHR 0x0A}) word \<Longrightarrow> cur @ word \<noteq> []
     \<Longrightarrow> split_words cur (word @ CHR '' '' # rest) = (cur @ word) # split_words [] rest"
  by (induction word arbitrary: cur) auto

lemma split_words_plain_last:
  "list_all (\<lambda>c. c \<notin> {CHR '' '', CHR 0x09, CHR 0x0A}) word \<Longrightarrow> cur @ word \<noteq> []
     \<Longrightarrow> split_words cur word = [cur @ word]"
  by (induction word arbitrary: cur) auto

lemma plain_word_split:
  "plain_word word \<Longrightarrow> list_all (\<lambda>c. c \<notin> {CHR '' '', CHR 0x09, CHR 0x0A}) word \<and> word \<noteq> []"
  by (auto simp add: plain_word_def list_all_iff)



lemma split_words_word_more:
  assumes "plain_word word"
  shows "split_words [] (word @ CHR '' '' # rest) = word # split_words [] rest"
proof -
  from plain_word_split [OF assms]
  have a: "list_all (\<lambda>c. c \<notin> {CHR '' '', CHR 0x09, CHR 0x0A}) word" and b: "word \<noteq> []" by blast+
  from b have c: "[] @ word \<noteq> []" by simp
  from split_words_plain_more [OF a c] show ?thesis by simp
qed

lemma split_words_word_last:
  assumes "plain_word word"
  shows "split_words [] word = [word]"
proof -
  from plain_word_split [OF assms]
  have a: "list_all (\<lambda>c. c \<notin> {CHR '' '', CHR 0x09, CHR 0x0A}) word" and b: "word \<noteq> []" by blast+
  from b have c: "[] @ word \<noteq> []" by simp
  from split_words_plain_last [OF a c] show ?thesis by simp
qed

lemma flag_words_plain [simp]:
  "expand_word x ''--auth-choice'' = [''--auth-choice'']"
  "expand_word x ''cloudflare-ai-gateway-api-key'' = [''cloudflare-ai-gateway-api-key'']"
  "expand_word x ''apiKey'' = [''apiKey'']"
  "expand_word x ''openai-api-key'' = [''openai-api-key'']"
  "expand_word x ''--cloudflare-ai-gateway-account-id'' = [''--cloudflare-ai-gateway-account-id'']"
  "expand_word x ''--cloudflare-ai-gateway-gateway-id'' = [''--cloudflare-ai-gateway-gateway-id'']"
  "expand_word x ''--cloudflare-ai-gateway-api-key'' = [''--cloudflare-ai-gateway-api-key'']"
  "expand_word x ''--anthropic-api-key'' = [''--anthropic-api-key'']"
  "expand_word x ''--openai-api-key'' = [''--openai-api-key'']"
  by (simp_all add: expand_word_def has_glob_def)

lemma auth_words_gateway:
  assumes "plain_word a" and "plain_word g" and "plain_word k"
  shows "split_words [] (''--auth-choice cloudflare-ai-gateway-api-key ''
           @ ''--cloudflare-ai-gateway-account-id '' @ a
           @ '' --cloudflare-ai-gateway-gateway-id '' @ g
           @ '' --cloudflare-ai-gateway-api-key '' @ k)
         = [''--auth-choice'', ''cloudflare-ai-gateway-api-key'',
            ''--cloudflare-ai-gateway-account-id'', a,
            ''--cloudflare-ai-gateway-gateway-id'', g,
            ''--cloudflare-ai-gateway-api-key'', k]"
  using assms by (simp add: split_words_word_more split_words_word_last)

lemma auth_words_anthropic:
  assumes "plain_word k"
  shows "split_words [] (''--auth-choice apiKey --anthropic-api-key '' @ k)
         = [''--auth-choice'', ''apiKey'', ''--anthropic-api-key'', k]"
  using assms by (simp add: split_words_word_last)

lemma auth_words_openai:
  assumes "plain_word k"
  shows "split_words [] (''--auth-choice openai-api-key --openai-api-key '' @ k)
         = [''--auth-choice'', ''openai-api-key'', ''--openai-api-key'', k]"
  using assms by (simp add: split_words_word_last)





section \<open>Lemmas on the node scripts\<close>

lemma truthy_as_written [simp]: "truthy (as_written v) = truthy v"
  by (cases v) simp_all

lemma map_of_as_written:
  "map_of (map (map_prod id as_written) kvs) k = map_option as_written (map_of kvs k)"
  by (induction kvs) auto

lemma update_as_written:
  "AList.update k (as_written x) (map (map_prod id as_written) kvs)
     = map (map_prod id as_written) (AList.update k x kvs)"
  by (induction kvs) auto

lemma getp_obj [simp]: "getp (JObj kvs) k = map_of kvs k"
  by (simp add: getp_def)

lemma getp_arr [simp]: "getp (JArr xs ps) k = map_of ps k"
  by (simp add: getp_def)

lemma getp_prim [simp]:
  "getp JNull k = None" "getp (JBool b) k = None" "getp (JNum n) k = None" "getp (JStr s) k = None"
  by (simp_all add: getp_def)

lemma is_object_simps [simp]:
  "is_object (JObj kvs)" "\<not> is_object (JArr xs ps)" "\<not> is_object JNull" "\<not> is_object (JBool b)"
  "\<not> is_object (JNum n)" "\<not> is_object (JStr s)"
  by (simp_all add: is_object_def)

lemma map_of_update_same [simp]: "map_of (AList.update k v al) k = Some v"
  by (simp add: AList.update_conv')

lemma map_of_update_other [simp]: "k' \<noteq> k \<Longrightarrow> map_of (AList.update k v al) k' = map_of al k'"
  by (simp add: AList.update_conv')

lemma token_persisted_skip:
  assumes "truthy_opt (persisted_token pf)"
  shows "node_inject e (pf, cf) = (0, (pf, cf), [''Existing token found, skipping env var injection''])"
proof -
  from assms obtain r where r: "load pf = Some r"
    by (cases "load pf") (auto simp add: persisted_token_def chain_def truthy_opt_def)
  from assms r obtain ps where ps: "getp r ''profiles'' = Some ps" and rn: "r \<noteq> JNull"
    by (cases r; cases "getp r ''profiles''")
       (auto simp add: persisted_token_def chain_def truthy_opt_def)
  from assms r ps rn obtain en where en: "getp ps profileId = Some en" and pn: "ps \<noteq> JNull"
    by (cases ps; cases "getp ps profileId")
       (auto simp add: persisted_token_def chain_def truthy_opt_def split: json.splits)
  from assms r ps rn en pn have tok: "truthy_opt (getp en ''token'')" and enn: "en \<noteq> JNull"
    by (cases en; auto simp add: persisted_token_def chain_def truthy_opt_def split: json.splits)+
  have pst: "truthy ps" using en by (cases ps) auto
  have ent: "truthy en" using tok by (cases en) (auto simp add: truthy_opt_def)
  have ens: "ensure r ''profiles'' = r"
    using ps pst by (cases r) (auto simp add: ensure_def or_empty_def AList.update_triv)
  have tp: "token_persisted ps"
    using en ent tok enn by (cases en) (auto simp add: token_persisted_def truthy_opt_def chain_def)
  show ?thesis
    using r rn ens ps tp by (cases r) (simp_all add: node_inject_def)
qed

lemma ensure_obj: "ensure (JObj kvs) k = JObj (AList.update k (or_empty (map_of kvs k)) kvs)"
  by (simp add: ensure_def)

lemma within_obj:
  "within (JObj kvs) k f =
     (case map_of kvs k of None \<Rightarrow> None | Some JNull \<Rightarrow> None
      | Some u \<Rightarrow> map_option (\<lambda>u'. JObj (AList.update k u' kvs)) (f u))"
  by (auto simp add: within_def split: option.splits json.splits)

lemma or_empty_shaped:
  "(case x of None \<Rightarrow> True | Some u \<Rightarrow> truthy u \<longrightarrow> is_object u) \<Longrightarrow> is_object (or_empty x)"
  by (auto simp add: or_empty_def split: option.splits)

lemma is_object_ex: "is_object v \<Longrightarrow> \<exists>kvs. v = JObj kvs"
  by (cases v) simp_all

lemma or_empty_not_null [simp]: "or_empty x \<noteq> JNull"
  by (auto simp add: or_empty_def split: option.splits)

lemma within_ensure_obj:
  "within (ensure (JObj kvs) k) k f
     = map_option (\<lambda>u'. JObj (AList.update k u' kvs)) (f (or_empty (map_of kvs k)))"
  by (cases "or_empty (map_of kvs k)"; cases "f (or_empty (map_of kvs k))")
     (simp_all add: ensure_obj within_obj)

lemma chain_Some_obj [simp]: "chain (Some (JObj kvs)) k = map_of kvs k"
  by (simp add: chain_def)

lemma chain_None [simp]: "chain None k = None"
  by (simp add: chain_def)

lemma as_written_obj_eq: "as_written (JObj kvs) = JObj (map (map_prod id as_written) kvs)"
  by simp

lemma shaped_field:
  assumes "objects_along (k # ks) (JObj kvs)"
  shows "\<exists>l. or_empty (map_of kvs k) = JObj l \<and> objects_along ks (JObj l)
             \<and> (truthy_opt (map_of kvs k) \<longrightarrow> map_of kvs k = Some (JObj l))
             \<and> (\<not> truthy_opt (map_of kvs k) \<longrightarrow> l = [])"
proof (cases "map_of kvs k")
  case None
  then show ?thesis by (cases ks) (simp_all add: or_empty_def truthy_opt_def)
next
  case (Some u)
  show ?thesis
  proof (cases "truthy u")
    case True
    with Some assms have "objects_along ks u" by simp
    then obtain l where "u = JObj l" by (cases ks; cases u) simp_all
    with Some True \<open>objects_along ks u\<close> show ?thesis by (simp add: or_empty_def truthy_opt_def)
  next
    case False
    with Some show ?thesis by (cases ks) (simp_all add: or_empty_def truthy_opt_def)
  qed
qed

lemma inject_config_shaped:
  assumes a: "objects_along [''auth'', ''profiles''] c" and m: "objects_along [''models'', ''providers''] c"
  shows "\<exists>c'. inject_config c = Some c' \<and> is_object c'
          \<and> lookup_path (Some (as_written c')) [''auth'', ''profiles'', profileId]
               = Some (JObj [(''provider'', JStr ''anthropic''), (''mode'', JStr ''token'')])
          \<and> truthy_opt (lookup_path (Some (as_written c')) [''models'', ''providers'', ''anthropic''])
          \<and> (\<not> truthy_opt (lookup_path (Some c) [''models'', ''providers'', ''anthropic''])
                \<longrightarrow> lookup_path (Some (as_written c')) [''models'', ''providers'', ''anthropic'']
                      = Some (JObj [(''api'', JStr ''anthropic-messages'')]))"
proof -
  from a obtain kvs where c: "c = JObj kvs" by (cases c) simp_all
  from a c obtain al where A: "or_empty (map_of kvs ''auth'') = JObj al"
      and Ash: "objects_along [''profiles''] (JObj al)"
    using shaped_field [of "''auth''" "[''profiles'']" kvs] by auto
  from Ash obtain pl where P: "or_empty (map_of al ''profiles'') = JObj pl"
    using shaped_field [of "''profiles''" "[]" al] by auto
  from m c obtain ml where M: "or_empty (map_of kvs ''models'') = JObj ml"
      and Msh: "objects_along [''providers''] (JObj ml)"
      and Mt: "truthy_opt (map_of kvs ''models'') \<longrightarrow> map_of kvs ''models'' = Some (JObj ml)"
      and Mf: "\<not> truthy_opt (map_of kvs ''models'') \<longrightarrow> ml = []"
    using shaped_field [of "''models''" "[''providers'']" kvs] by auto
  from Msh obtain prl where PR: "or_empty (map_of ml ''providers'') = JObj prl"
      and PRt: "truthy_opt (map_of ml ''providers'') \<longrightarrow> map_of ml ''providers'' = Some (JObj prl)"
      and PRf: "\<not> truthy_opt (map_of ml ''providers'') \<longrightarrow> prl = []"
    using shaped_field [of "''providers''" "[]" ml] by auto
  have old: "truthy_opt (lookup_path (Some c) [''models'', ''providers'', ''anthropic''])
               = truthy_opt (map_of prl ''anthropic'')"
  proof (cases "truthy_opt (map_of kvs ''models'')")
    case True
    with Mt have km: "map_of kvs ''models'' = Some (JObj ml)" by simp
    show ?thesis
    proof (cases "truthy_opt (map_of ml ''providers'')")
      case True
      with PRt km show ?thesis by (simp add: c)
    next
      case False
      with PRf have "prl = []" by simp
      with False km show ?thesis
        by (cases "map_of ml ''providers''")
           (auto simp add: c truthy_opt_def chain_def getp_def split: json.splits)
    qed
  next
    case False
    with Mf PRf have "prl = []" by (simp add: truthy_opt_def)
    with False show ?thesis
      by (cases "map_of kvs ''models''")
         (auto simp add: c truthy_opt_def chain_def getp_def split: json.splits)
  qed
  show ?thesis
    using A P M PR old
    by (auto simp add: c inject_config_def within_ensure_obj map_of_as_written profileId_def truthy_opt_def
             split: option.splits)
qed

lemma as_written_token_profile [simp]: "as_written (token_profile e) = token_profile e"
  by (simp add: token_profile_def)

lemma load_Json [simp]: "load (Some (Json j)) = Some j"
  by (simp add: load_def)

lemma node_inject_shaped:
  assumes np: "\<not> truthy_opt (persisted_token pf)"
    and sp: "store_shaped pf" and sc: "config_shaped cf"
  shows "\<exists>pf' cf' out.
           node_inject e (pf, cf) = (0, (pf', cf'), out)
           \<and> lookup_path (load pf') [''profiles'', profileId] = Some (token_profile e)
           \<and> lookup_path (load cf') [''auth'', ''profiles'', profileId]
                = Some (JObj [(''provider'', JStr ''anthropic''), (''mode'', JStr ''token'')])
           \<and> truthy_opt (lookup_path (load cf') [''models'', ''providers'', ''anthropic''])
           \<and> (\<not> truthy_opt (lookup_path (load cf) [''models'', ''providers'', ''anthropic''])
                 \<longrightarrow> lookup_path (load cf') [''models'', ''providers'', ''anthropic'']
                       = Some (JObj [(''api'', JStr ''anthropic-messages'')]))"
proof -
  define root0 where "root0 = (case load pf of None \<Rightarrow> JObj [] | Some r \<Rightarrow> r)"
  define config where "config = (case load cf of None \<Rightarrow> JObj [] | Some c \<Rightarrow> c)"
  have r0: "objects_along [''profiles''] root0"
    using sp by (cases "load pf") (simp_all add: store_shaped_def root0_def)
  then obtain kvs where kvs: "root0 = JObj kvs" by (cases root0) simp_all
  from r0 kvs obtain pl where P: "or_empty (map_of kvs ''profiles'') = JObj pl"
      and Pt: "truthy_opt (map_of kvs ''profiles'') \<longrightarrow> map_of kvs ''profiles'' = Some (JObj pl)"
      and Pf: "\<not> truthy_opt (map_of kvs ''profiles'') \<longrightarrow> pl = []"
    using shaped_field [of "''profiles''" "[]" kvs] by auto
  have pt: "persisted_token pf = chain (chain (map_of kvs ''profiles'') profileId) ''token''"
    using kvs by (cases "load pf") (simp_all add: persisted_token_def root0_def)
  have notp: "\<not> token_persisted (JObj pl)"
  proof (cases "truthy_opt (map_of kvs ''profiles'')")
    case True
    with Pt np pt show ?thesis by (simp add: token_persisted_def)
  next
    case False
    with Pf show ?thesis by (simp add: token_persisted_def truthy_opt_def)
  qed
  have c0: "objects_along [''auth'', ''profiles''] config \<and> objects_along [''models'', ''providers''] config"
    using sc by (cases "load cf") (simp_all add: config_shaped_def config_def)
  have lc: "lookup_path (load cf) [''models'', ''providers'', ''anthropic'']
              = lookup_path (Some config) [''models'', ''providers'', ''anthropic'']"
    by (cases "load cf") (simp_all add: config_def)
  from c0 inject_config_shaped [of config] obtain c' where
    ic: "inject_config config = Some c'"
    and l1: "lookup_path (Some (as_written c')) [''auth'', ''profiles'', profileId]
               = Some (JObj [(''provider'', JStr ''anthropic''), (''mode'', JStr ''token'')])"
    and l2: "truthy_opt (lookup_path (Some (as_written c')) [''models'', ''providers'', ''anthropic''])"
    and l3: "\<not> truthy_opt (lookup_path (Some config) [''models'', ''providers'', ''anthropic''])
                \<longrightarrow> lookup_path (Some (as_written c')) [''models'', ''providers'', ''anthropic'']
                      = Some (JObj [(''api'', JStr ''anthropic-messages'')])"
    by blast
  have run: "node_inject e (pf, cf)
      = (0, (Some (Json (as_written (JObj (AList.update ''profiles''
                 (JObj (AList.update profileId (token_profile e) pl)) kvs)))),
             Some (Json (as_written c'))),
         ''Setup token written to auth-profiles.json''
         # (if stub_added config then [''Added default Anthropic provider for setup token auth''] else [])
         @ [''Config updated with token profile reference''])"
    using kvs P notp ic
    by (simp add: node_inject_def root0_def [symmetric] config_def [symmetric] ensure_obj Let_def)
  show ?thesis
    using l1 l2 l3 lc by (simp add: run map_of_as_written)
qed

lemma setup_env_token:
  "isset setup_env ''CLAUDE_SETUP_TOKEN'' \<and> trim (getenv setup_env ''CLAUDE_SETUP_TOKEN'') = ''tok-123''"
  by (simp add: isset_def getenv_def setup_env_def trim_def is_space_def)

lemma admin_world_token: "truthy_opt (persisted_token (profiles_file admin_world))"
  by (simp add: admin_world_def persisted_token_def profileId_def truthy_opt_def)

lemma fresh_world_store:
  "\<not> truthy_opt (persisted_token (profiles_file fresh_world))
   \<and> store_shaped (profiles_file fresh_world) \<and> config_shaped (config_file fresh_world)
   \<and> \<not> truthy_opt (lookup_path (load (config_file fresh_world)) [''models'', ''providers'', ''anthropic''])"
  by (simp add: fresh_world_def persisted_token_def store_shaped_def config_shaped_def load_def truthy_opt_def)


lemma list_auth_run:
  "node_inject setup_env (None, Some (Json (JObj [(''auth'', JArr [] [])])))
     = (0, (Some (Json (JObj [(''profiles'',
                                 JObj [(''anthropic:default'',
                                        JObj [(''type'', JStr ''token''), (''provider'', JStr ''anthropic''),
                                              (''token'', JStr ''tok-123'')])])])),
            Some (Json (JObj [(''auth'', JArr [] []),
                              (''models'', JObj [(''providers'',
                                 JObj [(''anthropic'', JObj [(''api'', JStr ''anthropic-messages'')])])])]))),
        [''Setup token written to auth-profiles.json'',
         ''Added default Anthropic provider for setup token auth'',
         ''Config updated with token profile reference''])"
  using setup_env_token
  by (simp add: node_inject_def load_def ensure_def or_empty_def token_persisted_def truthy_opt_def
        profileId_def token_profile_def inject_config_def within_def stub_added_def Let_def)

section \<open>The claims\<close>

subsection \<open>C1: the restore decision\<close>

text \<open>
  C1 fails on the script, against the script's own comments ("Restore workspace from
  R2 backup if available (only if R2 is newer)", and the same for skills). The
  decision function is as the claim says: \<^verbatim>\<open>should_restore_from_r2\<close> says "restore"
  if and only if the backup marker is strictly newer than the local marker, a missing
  marker being older than every present one and an unparseable one counting as epoch
  0; and when the backup marker is not newer, nothing is restored. But the script
  takes the decision three times, once for the configuration, once for the workspace
  and once for the skills, each time on the markers as they are then. A successful
  copy of the configuration copies the backup's marker to the local side, so the two
  later decisions see equal markers: with a newer backup that holds a configuration,
  the configuration is restored and the workspace and the skills are left as they
  were. They are restored, when the backup is newer, only if the backup holds no
  configuration document.
\<close>

theorem restore_outcome:
  "fst (should_restore_from_r2 date backup_marker local_marker)
     = (marker_rank date local_marker < marker_rank date backup_marker)
   \<and> (\<not> backup_newer x w \<longrightarrow> fst (restore_all x w) = w)
   \<and> (backup_newer x w \<and> backup_config w \<noteq> None \<and> cp_config x = CpConfigOk
        \<longrightarrow> config_file (fst (restore_all x w)) = backup_config w
            \<and> local_sync (fst (restore_all x w)) = backup_sync w
            \<and> workspace_files (fst (restore_all x w)) = workspace_files w
            \<and> skills_files (fst (restore_all x w)) = skills_files w)
   \<and> (backup_newer x w \<and> backup_config w = None \<and> cp_workspace x = CpTreeOk \<and> cp_skills x = CpTreeOk
        \<longrightarrow> config_file (fst (restore_all x w)) = config_file w
            \<and> local_sync (fst (restore_all x w)) = local_sync w
            \<and> workspace_files (fst (restore_all x w)) = AList.merge (workspace_files w) (backup_workspace w)
            \<and> skills_files (fst (restore_all x w)) = AList.merge (skills_files w) (backup_skills w))"
proof (intro conjI impI)
  show "fst (should_restore_from_r2 date backup_marker local_marker)
     = (marker_rank date local_marker < marker_rank date backup_marker)"
    by (rule should_restore_iff)
next
  assume n: "\<not> backup_newer x w"
  show "fst (restore_all x w) = w"
    using n by (simp add: restore_all_world restore_config_skip restore_workspace_skip restore_skills_skip)
next
  assume h: "backup_newer x w \<and> backup_config w \<noteq> None \<and> cp_config x = CpConfigOk"
  define w1 where "w1 = w\<lparr>config_file := backup_config w,
                profiles_file := overwrite (profiles_file w) (backup_profiles w),
                local_sync := backup_sync w\<rparr>"
  have c: "fst (restore_config x w) = w1" using h by (simp add: restore_config_ok w1_def)
  have "\<not> backup_newer x w1" by (rule backup_newer_equal) (simp add: w1_def)
  then have all: "fst (restore_all x w) = w1"
    by (simp add: restore_all_world c restore_workspace_skip restore_skills_skip)
  show "config_file (fst (restore_all x w)) = backup_config w" by (simp add: all w1_def)
  show "local_sync (fst (restore_all x w)) = backup_sync w" by (simp add: all w1_def)
  show "workspace_files (fst (restore_all x w)) = workspace_files w" by (simp add: all w1_def)
  show "skills_files (fst (restore_all x w)) = skills_files w" by (simp add: all w1_def)
next
  assume h: "backup_newer x w \<and> backup_config w = None \<and> cp_workspace x = CpTreeOk \<and> cp_skills x = CpTreeOk"
  have c: "fst (restore_config x w) = w" using h by (simp add: restore_config_def)
  define w2 where "w2 = w\<lparr>workspace_files := AList.merge (workspace_files w) (backup_workspace w)\<rparr>"
  have ws: "fst (restore_workspace x w) = w2" using h by (simp add: restore_workspace_ok w2_def)
  have n2: "backup_newer x w2" using h backup_newer_cong [of w2 w x] by (simp add: w2_def)
  have sk: "fst (restore_skills x w2) = w2\<lparr>skills_files := AList.merge (skills_files w2) (backup_skills w2)\<rparr>"
    using h n2 by (simp add: restore_skills_ok)
  have all: "fst (restore_all x w) = w2\<lparr>skills_files := AList.merge (skills_files w2) (backup_skills w2)\<rparr>"
    by (simp add: restore_all_world c ws sk)
  show "config_file (fst (restore_all x w)) = config_file w" by (simp add: all w2_def)
  show "local_sync (fst (restore_all x w)) = local_sync w" by (simp add: all w2_def)
  show "workspace_files (fst (restore_all x w)) = AList.merge (workspace_files w) (backup_workspace w)"
    by (simp add: all w2_def)
  show "skills_files (fst (restore_all x w)) = AList.merge (skills_files w) (backup_skills w)"
    by (simp add: all w2_def)
qed

theorem restore_outcome_witness:
  "backup_newer quiet_ext full_backup_world
   \<and> backup_workspace full_backup_world = [(''IDENTITY.md'', ''I am the agent'')]
   \<and> backup_skills full_backup_world = [(''search/SKILL.md'', ''how to search'')]
   \<and> config_file (fst (restore_all quiet_ext full_backup_world)) = Some (Json (JObj [(''gateway'', JObj [])]))
   \<and> local_sync (fst (restore_all quiet_ext full_backup_world)) = Some ''2024-01-01T00:00:00Z''
   \<and> workspace_files (fst (restore_all quiet_ext full_backup_world)) = []
   \<and> skills_files (fst (restore_all quiet_ext full_backup_world)) = []
   \<and> backup_newer quiet_ext trees_backup_world
   \<and> workspace_files (fst (restore_all quiet_ext trees_backup_world)) = [(''IDENTITY.md'', ''I am the agent'')]
   \<and> skills_files (fst (restore_all quiet_ext trees_backup_world)) = [(''search/SKILL.md'', ''how to search'')]
   \<and> \<not> backup_newer quiet_ext synced_world
   \<and> fst (restore_all quiet_ext synced_world) = synced_world"
  using restore_outcome [of toy_date None None quiet_ext full_backup_world]
        restore_outcome [of toy_date None None quiet_ext trees_backup_world]
        restore_outcome [of toy_date None None quiet_ext synced_world]
        sample_markers sample_backups quiet_copies
  by (simp add: AList.merge_def)

subsection \<open>C2: stale-lock recovery\<close>

text \<open>
  C2. The first half holds (lemmas \<open>stale_lock_recovery\<close> and \<open>lock_failure_aborts\<close>):
  when the lock directory exists and nothing answers on the port, an invocation removes
  the directory, tries \<^verbatim>\<open>mkdir\<close> once more, and exits with status 1 and "Failed to
  acquire lock after recovery" if that fails. The second half does not hold on the
  script: an invocation that starts while a first invocation holds the lock (directory
  present, port not answering yet) cannot tell that lock from a stale one; it removes
  it, takes it, and goes on to start the gateway. The theorem runs the script in that
  state.
\<close>

theorem second_invocation_takes_held_lock:
  "held_world = fresh_world\<lparr>lockdir := True\<rparr>
   \<and> \<not> probe_ok held_world \<and> lockdir held_world
   \<and> fst (acquire_lock quiet_ext held_world)
   \<and> Cmd [''rm'', ''-rf'', LOCKFILE] \<in> set (trace_of (boot quiet_ext token_env held_world))
   \<and> launched (boot quiet_ext token_env held_world)
   \<and> Spawn (gateway_argv token_env) \<in> set (trace_of (boot quiet_ext token_env held_world))"
proof -
  have hw: "held_world = fresh_world\<lparr>lockdir := True\<rparr>"
    by (simp add: held_world_def acquire_lock_world)
  have state: "\<not> probe_ok held_world \<and> lockdir held_world"
    by (simp add: hw fresh_world_def)
  have race: "\<not> lock_race quiet_ext"
    by (simp add: quiet_ext_def)
  have acq: "fst (acquire_lock quiet_ext held_world)"
    using race by (simp add: acquire_lock_fst)
  have l: "launched (boot quiet_ext token_env held_world)"
    using state race sample_body_ok by (simp add: launched_iff hw)
  from hw state acq l launched_spawn [OF l] recovery_in_trace [of held_world quiet_ext token_env]
  show ?thesis by simp
qed

subsection \<open>C5: onboarding runs exactly when no configuration document exists\<close>

text \<open>
  C5. \<^verbatim>\<open>openclaw onboard\<close> runs in an invocation if and only if the invocation gets past
  the liveness probe and the lock and no \<^verbatim>\<open>openclaw.json\<close> exists after the restore
  step. If a configuration document exists at the start (whatever its content and
  whatever the backup holds), or the restore step has just copied one from the backup,
  onboarding does not run.
\<close>

theorem onboarding_iff_no_config:
  "ran_onboard (snd (snd (start_openclaw x e w)))
     = (\<not> probe_ok w \<and> \<not> (lockdir w \<and> lock_race x)
        \<and> config_file (fst (restore_all x (w\<lparr>lockdir := True\<rparr>))) = None)
   \<and> (config_file w \<noteq> None \<longrightarrow> \<not> ran_onboard (snd (snd (start_openclaw x e w))))
   \<and> (backup_config w \<noteq> None
        \<and> fst (should_restore_from_r2 (date_epoch x) (backup_sync w) (local_sync w))
        \<and> cp_config x = CpConfigOk
      \<longrightarrow> \<not> ran_onboard (snd (snd (start_openclaw x e w))))"
proof -
  let ?w0 = "w\<lparr>lockdir := True\<rparr>"
  have main: "ran_onboard (snd (snd (start_openclaw x e w)))
     = (\<not> probe_ok w \<and> \<not> (lockdir w \<and> lock_race x)
        \<and> config_file (fst (restore_all x ?w0)) = None)"
    by (simp add: start_trace boot_onboard)
  have keep: "config_file w \<noteq> None \<Longrightarrow> config_file (fst (restore_all x ?w0)) \<noteq> None"
    using restore_config_keeps [of ?w0 x] by (simp add: restore_all_config)
  have copied: "backup_config w \<noteq> None
        \<and> fst (should_restore_from_r2 (date_epoch x) (backup_sync w) (local_sync w))
        \<and> cp_config x = CpConfigOk \<Longrightarrow> config_file (fst (restore_all x ?w0)) \<noteq> None"
    using restore_config_copied [of ?w0 x] by (simp add: restore_all_config)
  show ?thesis unfolding main using keep copied by simp
qed

theorem onboarding_iff_no_config_witness:
  "config_file configured_world \<noteq> None
   \<and> \<not> ran_onboard (snd (snd (start_openclaw quiet_ext token_env configured_world)))
   \<and> backup_config backup_only_world \<noteq> None
   \<and> fst (should_restore_from_r2 (date_epoch quiet_ext) (backup_sync backup_only_world)
            (local_sync backup_only_world))
   \<and> cp_config quiet_ext = CpConfigOk
   \<and> \<not> ran_onboard (snd (snd (start_openclaw quiet_ext token_env backup_only_world)))"
proof -
  have h1: "config_file configured_world \<noteq> None"
    by (simp add: configured_world_def fresh_world_def)
  have h2: "backup_config backup_only_world \<noteq> None
     \<and> fst (should_restore_from_r2 (date_epoch quiet_ext) (backup_sync backup_only_world)
              (local_sync backup_only_world))
     \<and> cp_config quiet_ext = CpConfigOk"
    by (simp add: backup_only_world_def fresh_world_def quiet_ext_def should_restore_from_r2_def)
  from h1 h2 onboarding_iff_no_config [of quiet_ext token_env configured_world]
       onboarding_iff_no_config [of quiet_ext token_env backup_only_world]
  show ?thesis by blast
qed

subsection \<open>C6: the liveness fast path\<close>

text \<open>
  C6. When the probe of port 18789 succeeds, the script prints that the gateway is
  already running and exits with status 0 at once: the probe is the only command it
  runs, before any lock logic, and every file, the lock directory included, is left as
  it was.
\<close>

theorem fast_path:
  "probe_ok w \<Longrightarrow>
     start_openclaw x e w
       = (0, w, [probe_cmd, Out ''OpenClaw gateway is already running on port 18789, exiting.''])"
  by (simp add: start_openclaw_def boot_def)

theorem fast_path_witness:
  "probe_ok live_world \<and> lockdir live_world
   \<and> start_openclaw quiet_ext token_env live_world
       = (0, live_world, [probe_cmd, Out ''OpenClaw gateway is already running on port 18789, exiting.''])"
proof -
  have h: "probe_ok live_world" by (simp add: live_world_def)
  from fast_path [OF h, of quiet_ext token_env] h show ?thesis by (simp add: live_world_def)
qed

subsection \<open>C7: credential priority of onboarding\<close>




subsection \<open>C8: the launch step\<close>

text \<open>
  C8, as the claim states it, fails: the script does not replace itself by the gateway.
  It starts the gateway in the background and waits for it, so that the shell stays
  alive for the trap that removes the lock. In the sample run below the gateway is
  started with \<^verbatim>\<open>&\<close>, no command is run with \<^verbatim>\<open>exec\<close>, and the lock directory
  still exists while the gateway runs.
\<close>

theorem gateway_not_exec:
  "launched (boot quiet_ext token_env fresh_world)
   \<and> Spawn (gateway_argv token_env) \<in> set (snd (snd (start_openclaw quiet_ext token_env fresh_world)))
   \<and> Exec (gateway_argv token_env) \<notin> set (snd (snd (start_openclaw quiet_ext token_env fresh_world)))
   \<and> lockdir (world_of (boot quiet_ext token_env fresh_world))"
  using sample_launched launched_spawn [OF sample_launched] launched_lock_held [OF sample_launched]
        boot_trace_in_run [of quiet_ext token_env fresh_world]
        no_exec [of "gateway_argv token_env" quiet_ext token_env fresh_world]
  by blast

text \<open>
  C8, amended. When the script reaches the launch, it starts the gateway as a
  background child with the arguments \<^verbatim>\<open>--port 18789 --verbose --allow-unconfigured
  --bind lan\<close>, followed by \<^verbatim>\<open>--token\<close> and the token exactly when
  \<^verbatim>\<open>OPENCLAW_GATEWAY_TOKEN\<close> is set; it never replaces itself with \<^verbatim>\<open>exec\<close>; the lock
  is still held while the gateway runs; the script waits for the gateway. It exits
  with the gateway's own exit status when the lock directory is still there at that
  moment; when the lock directory is gone by then, \<^verbatim>\<open>rmdir\<close> fails in the trap and the
  script exits with status 1 instead. Every invocation that has acquired the lock ends
  with the lock directory removed, whichever way it ends.
\<close>

theorem launch_contract:
  "(launched (boot x e w) \<longrightarrow>
      Spawn (gateway_argv e) \<in> set (trace_of (boot x e w))
      \<and> (\<forall>argv. Exec argv \<notin> set (snd (snd (start_openclaw x e w))))
      \<and> lockdir (world_of (boot x e w))
      \<and> fst (start_openclaw x e w)
          = (if lockdir (snd (gateway_run x (gateway_argv e) (world_of (boot x e w))))
             then fst (gateway_run x (gateway_argv e) (world_of (boot x e w)))
             else 1))
   \<and> (\<not> probe_ok w \<and> \<not> (lockdir w \<and> lock_race x) \<longrightarrow> \<not> lockdir (fst (snd (start_openclaw x e w))))
   \<and> take 8 (gateway_argv e)
        = [''openclaw'', ''gateway'', ''--port'', ''18789'', ''--verbose'', ''--allow-unconfigured'', ''--bind'', ''lan'']
   \<and> drop 8 (gateway_argv e)
        = (if isset e ''OPENCLAW_GATEWAY_TOKEN'' then [''--token'', getenv e ''OPENCLAW_GATEWAY_TOKEN''] else [])"
proof -
  have code: "launched (boot x e w) \<Longrightarrow>
      fst (start_openclaw x e w)
        = (if lockdir (snd (gateway_run x (gateway_argv e) (world_of (boot x e w))))
           then fst (gateway_run x (gateway_argv e) (world_of (boot x e w)))
           else 1)"
    by (auto simp add: start_openclaw_def launched_def world_of_def exit_trap_def
             split: boot_result.splits prod.splits)
  have released: "\<not> probe_ok w \<and> \<not> (lockdir w \<and> lock_race x)
      \<Longrightarrow> \<not> lockdir (fst (snd (start_openclaw x e w)))"
    by (auto simp add: start_openclaw_def boot_cases exit_trap_def split: option.splits prod.splits)
  show ?thesis
    using launched_spawn [of x e w] launched_lock_held [of x e w] code released no_exec [of _ x e w]
    by (simp add: gateway_argv_def)
qed

theorem launch_contract_witness:
  "launched (boot quiet_ext token_env fresh_world)
   \<and> \<not> probe_ok fresh_world \<and> \<not> (lockdir fresh_world \<and> lock_race quiet_ext)
   \<and> Spawn (gateway_argv token_env) \<in> set (trace_of (boot quiet_ext token_env fresh_world))
   \<and> lockdir (world_of (boot quiet_ext token_env fresh_world))
   \<and> lockdir (snd (gateway_run quiet_ext (gateway_argv token_env) (world_of (boot quiet_ext token_env fresh_world))))
   \<and> fst (start_openclaw quiet_ext token_env fresh_world) = 0
   \<and> \<not> lockdir (fst (snd (start_openclaw quiet_ext token_env fresh_world)))
   \<and> launched (boot lost_lock_ext token_env fresh_world)
   \<and> fst (gateway_run lost_lock_ext (gateway_argv token_env) (world_of (boot lost_lock_ext token_env fresh_world))) = 3
   \<and> fst (start_openclaw lost_lock_ext token_env fresh_world) = 1
   \<and> isset token_env ''OPENCLAW_GATEWAY_TOKEN''
   \<and> drop 8 (gateway_argv token_env) = [''--token'', ''s3cret'']"
proof -
  have h: "\<not> probe_ok fresh_world \<and> \<not> (lockdir fresh_world \<and> lock_race quiet_ext)"
    by (simp add: fresh_world_def)
  have t: "isset token_env ''OPENCLAW_GATEWAY_TOKEN'' \<and> getenv token_env ''OPENCLAW_GATEWAY_TOKEN'' = ''s3cret''"
    by (simp add: isset_def getenv_def token_env_def)
  have q: "gateway_run quiet_ext = (\<lambda>argv w. (0, w))"
    by (simp add: quiet_ext_def)
  have l: "gateway_run lost_lock_ext = (\<lambda>argv w. (3, w\<lparr>lockdir := False\<rparr>))"
    by (simp add: lost_lock_ext_def)
  from sample_launched h t q launch_contract [of quiet_ext token_env fresh_world]
  have first: "Spawn (gateway_argv token_env) \<in> set (trace_of (boot quiet_ext token_env fresh_world))
     \<and> lockdir (world_of (boot quiet_ext token_env fresh_world))
     \<and> fst (start_openclaw quiet_ext token_env fresh_world) = 0
     \<and> \<not> lockdir (fst (snd (start_openclaw quiet_ext token_env fresh_world)))
     \<and> drop 8 (gateway_argv token_env) = [''--token'', ''s3cret'']"
    by simp
  from sample_launched_lost_lock l launch_contract [of lost_lock_ext token_env fresh_world]
  have second: "fst (start_openclaw lost_lock_ext token_env fresh_world) = 1"
    by simp
  from first second sample_launched sample_launched_lost_lock h t q l show ?thesis by simp
qed

subsection \<open>C9: credential injection never overwrites\<close>


text \<open>
  In the same way the reference to the profile is lost in a configuration whose
  \<^verbatim>\<open>auth\<close> entry is a list, while the token is written to the store and the script
  prints \<^verbatim>\<open>Config updated with token profile reference\<close>.
\<close>

lemma profile_reference_lost_in_list_auth:
  "fst (inject_step setup_env list_auth_world) = None
   \<and> Out ''Config updated with token profile reference'' \<in> set (snd (snd (inject_step setup_env list_auth_world)))
   \<and> lookup_path (load (profiles_file (fst (snd (inject_step setup_env list_auth_world)))))
        [''profiles'', profileId, ''token''] = Some (JStr ''tok-123'')
   \<and> lookup_path (load (config_file (fst (snd (inject_step setup_env list_auth_world)))))
        [''auth'', ''profiles'', profileId] = None"
  using setup_env_token list_auth_run
  by (simp add: inject_step_def list_auth_world_def fresh_world_def profileId_def chain_def)

text \<open>
  What holds of the injection step. If a token is already persisted for the profile
  \<^verbatim>\<open>anthropic:default\<close>, the step succeeds and changes no file, whatever the
  credential store and the configuration document are. If \<^verbatim>\<open>CLAUDE_SETUP_TOKEN\<close>
  is set, no token is persisted for the profile, and the credential store and the
  configuration document are key-value trees along the paths the script writes
  (\<open>store_shaped\<close>, \<open>config_shaped\<close>), the step succeeds, the store afterwards holds
  the profile \<^verbatim>\<open>{type: 'token', provider: 'anthropic', token: <trimmed token>}\<close>, the
  configuration afterwards refers to it under \<^verbatim>\<open>auth.profiles\<close> and has a provider
  \<^verbatim>\<open>models.providers.anthropic\<close>, which is the stub
  \<^verbatim>\<open>{api: 'anthropic-messages'}\<close> when there was none before.
\<close>

lemma injection_on_key_value_trees:
  "(truthy_opt (persisted_token (profiles_file w))
      \<longrightarrow> fst (inject_step e w) = None \<and> fst (snd (inject_step e w)) = w)
   \<and> (isset e ''CLAUDE_SETUP_TOKEN'' \<and> \<not> truthy_opt (persisted_token (profiles_file w))
        \<and> store_shaped (profiles_file w) \<and> config_shaped (config_file w)
      \<longrightarrow> fst (inject_step e w) = None
          \<and> lookup_path (load (profiles_file (fst (snd (inject_step e w))))) [''profiles'', profileId]
              = Some (JObj [(''type'', JStr ''token''), (''provider'', JStr ''anthropic''),
                            (''token'', JStr (trim (getenv e ''CLAUDE_SETUP_TOKEN'')))])
          \<and> lookup_path (load (config_file (fst (snd (inject_step e w))))) [''auth'', ''profiles'', profileId]
              = Some (JObj [(''provider'', JStr ''anthropic''), (''mode'', JStr ''token'')])
          \<and> truthy_opt (lookup_path (load (config_file (fst (snd (inject_step e w)))))
                           [''models'', ''providers'', ''anthropic''])
          \<and> (\<not> truthy_opt (lookup_path (load (config_file w)) [''models'', ''providers'', ''anthropic''])
                \<longrightarrow> lookup_path (load (config_file (fst (snd (inject_step e w)))))
                        [''models'', ''providers'', ''anthropic'']
                      = Some (JObj [(''api'', JStr ''anthropic-messages'')])))"
proof (intro conjI impI)
  assume t: "truthy_opt (persisted_token (profiles_file w))"
  show "fst (inject_step e w) = None"
    using token_persisted_skip [OF t, of e "config_file w"] by (simp add: inject_step_def)
  show "fst (snd (inject_step e w)) = w"
    using token_persisted_skip [OF t, of e "config_file w"] by (simp add: inject_step_def)
next
  assume h: "isset e ''CLAUDE_SETUP_TOKEN'' \<and> \<not> truthy_opt (persisted_token (profiles_file w))
        \<and> store_shaped (profiles_file w) \<and> config_shaped (config_file w)"
  from h node_inject_shaped [of "profiles_file w" "config_file w" e]
  obtain pf' cf' out where
    run: "node_inject e (profiles_file w, config_file w) = (0, (pf', cf'), out)"
    and p: "lookup_path (load pf') [''profiles'', profileId] = Some (token_profile e)"
    and a: "lookup_path (load cf') [''auth'', ''profiles'', profileId]
                = Some (JObj [(''provider'', JStr ''anthropic''), (''mode'', JStr ''token'')])"
    and m: "truthy_opt (lookup_path (load cf') [''models'', ''providers'', ''anthropic''])"
    and s: "\<not> truthy_opt (lookup_path (load (config_file w)) [''models'', ''providers'', ''anthropic''])
                 \<longrightarrow> lookup_path (load cf') [''models'', ''providers'', ''anthropic'']
                       = Some (JObj [(''api'', JStr ''anthropic-messages'')])"
    by blast
  have st: "inject_step e w
      = (None, w\<lparr>profiles_file := pf', config_file := cf'\<rparr>,
         Out ''Injecting setup token from CLAUDE_SETUP_TOKEN env var...'' # Cmd [''node''] # map Out out)"
    using h run by (simp add: inject_step_def)
  show "fst (inject_step e w) = None" by (simp add: st)
  show "lookup_path (load (profiles_file (fst (snd (inject_step e w))))) [''profiles'', profileId]
              = Some (JObj [(''type'', JStr ''token''), (''provider'', JStr ''anthropic''),
                            (''token'', JStr (trim (getenv e ''CLAUDE_SETUP_TOKEN'')))])"
    using p by (simp add: st token_profile_def)
  show "lookup_path (load (config_file (fst (snd (inject_step e w))))) [''auth'', ''profiles'', profileId]
              = Some (JObj [(''provider'', JStr ''anthropic''), (''mode'', JStr ''token'')])"
    using a by (simp add: st)
  show "truthy_opt (lookup_path (load (config_file (fst (snd (inject_step e w)))))
                           [''models'', ''providers'', ''anthropic''])"
    using m by (simp add: st)
  assume "\<not> truthy_opt (lookup_path (load (config_file w)) [''models'', ''providers'', ''anthropic''])"
  with s show "lookup_path (load (config_file (fst (snd (inject_step e w)))))
                        [''models'', ''providers'', ''anthropic'']
                      = Some (JObj [(''api'', JStr ''anthropic-messages'')])"
    by (simp add: st)
qed

lemma injection_on_key_value_trees_sample:
  "truthy_opt (persisted_token (profiles_file admin_world))
   \<and> fst (snd (inject_step setup_env admin_world)) = admin_world
   \<and> isset setup_env ''CLAUDE_SETUP_TOKEN''
   \<and> \<not> truthy_opt (persisted_token (profiles_file fresh_world))
   \<and> store_shaped (profiles_file fresh_world) \<and> config_shaped (config_file fresh_world)
   \<and> fst (inject_step setup_env fresh_world) = None
   \<and> lookup_path (load (profiles_file (fst (snd (inject_step setup_env fresh_world))))) [''profiles'', profileId]
       = Some (JObj [(''type'', JStr ''token''), (''provider'', JStr ''anthropic''), (''token'', JStr ''tok-123'')])
   \<and> lookup_path (load (config_file (fst (snd (inject_step setup_env fresh_world)))))
        [''models'', ''providers'', ''anthropic'']
       = Some (JObj [(''api'', JStr ''anthropic-messages'')])"
  using injection_on_key_value_trees [of admin_world setup_env]
        injection_on_key_value_trees [of fresh_world setup_env]
        setup_env_token admin_world_token fresh_world_store
  by simp

subsection \<open>C10: syncToR2 does not overwrite the backup from an empty state\<close>

text \<open>
  C10. When an R2 credential is missing, or the mount fails, or \<^verbatim>\<open>openclaw.json\<close>
  does not exist, \<open>syncToR2\<close> returns \<^verbatim>\<open>success: false\<close> with an error that says
  which, starts no \<^verbatim>\<open>rsync\<close> and leaves every file, the backup and its marker
  included, as it was. The \<^verbatim>\<open>rsync\<close> command is started only when the
  configuration file exists.
\<close>

theorem sync_guards:
  "(\<not> isset e ''R2_ACCESS_KEY_ID'' \<or> \<not> isset e ''R2_SECRET_ACCESS_KEY'' \<or> \<not> isset e ''CF_ACCOUNT_ID''
      \<or> \<not> mount_ok sx \<or> config_file w = None
    \<longrightarrow> success (fst (syncToR2 sx e w)) = False
        \<and> error (fst (syncToR2 sx e w)) =
            Some (if \<not> isset e ''R2_ACCESS_KEY_ID'' \<or> \<not> isset e ''R2_SECRET_ACCESS_KEY'' \<or> \<not> isset e ''CF_ACCOUNT_ID''
                  then ''R2 storage is not configured''
                  else if \<not> mount_ok sx then ''Failed to mount R2 storage''
                  else if check_fault sx \<noteq> None then ''Failed to verify source files''
                  else ''Sync aborted: no config file found'')
        \<and> fst (snd (syncToR2 sx e w)) = w
        \<and> syncCmd \<notin> set (snd (snd (syncToR2 sx e w))))
   \<and> (syncCmd \<in> set (snd (snd (syncToR2 sx e w))) \<longrightarrow> config_file w \<noteq> None)"
  by (auto simp add: syncToR2_def failure_def check_stdout_def Let_def checkCmd_def syncCmd_def timestampCmd_def
           split: option.splits)

theorem sync_guards_witness:
  "config_file fresh_world = None
   \<and> success (fst (syncToR2 plain_sandbox r2_env fresh_world)) = False
   \<and> error (fst (syncToR2 plain_sandbox r2_env fresh_world)) = Some ''Sync aborted: no config file found''
   \<and> fst (snd (syncToR2 plain_sandbox r2_env fresh_world)) = fresh_world
   \<and> syncCmd \<notin> set (snd (snd (syncToR2 plain_sandbox r2_env fresh_world)))
   \<and> syncCmd \<in> set (snd (snd (syncToR2 plain_sandbox r2_env configured_world)))
   \<and> config_file configured_world \<noteq> None"
proof -
  have h: "config_file fresh_world = None" by (simp add: fresh_world_def)
  have e: "isset r2_env ''R2_ACCESS_KEY_ID'' \<and> isset r2_env ''R2_SECRET_ACCESS_KEY''
           \<and> isset r2_env ''CF_ACCOUNT_ID'' \<and> mount_ok plain_sandbox \<and> check_fault plain_sandbox = None"
    by (simp add: isset_def getenv_def r2_env_def plain_sandbox_def)
  have c: "config_file configured_world \<noteq> None"
    by (simp add: configured_world_def fresh_world_def)
  have r: "syncCmd \<in> set (snd (snd (syncToR2 plain_sandbox r2_env configured_world)))"
    using e c by (simp add: syncToR2_def check_stdout_def plain_sandbox_def starts_with_def Let_def
                       split: option.splits)
  from h e c r sync_guards [of r2_env plain_sandbox fresh_world]
       sync_guards [of r2_env plain_sandbox configured_world]
  show ?thesis by simp
qed

end
